theory Spec2Isabelle
  imports Complex_Main "HOL-Library.AList" "HOL-Library.Multiset"
begin

section \<open>Cell values and the JavaScript runtime\<close>

text \<open>
  A cell of a spreadsheet row is a JavaScript value: \<open>null\<close>, \<open>undefined\<close>, a string, a
  number, a boolean or a \<open>Date\<close> object. A \<open>Date\<close> is an object, so it carries the
  reference that \<open>===\<close> compares, and the text that \<open>String()\<close> renders for it.
  The type of numbers is a parameter: the engine only reaches numbers through the
  built-ins collected in the record \<open>runtime\<close> below.
\<close>

datatype 'n jsval =
    Null
  | Undefined
  | Str string
  | Num 'n
  | Bool bool
  | DateObj nat string

text \<open>
  The built-ins of the language that the engine calls: \<open>parseFloat\<close>, \<open>isNaN\<close>, the
  arithmetic operators, \<open>Math.min\<close>, \<open>Math.max\<close>, \<open>Math.round\<close>, number literals,
  \<open>===\<close> on numbers, \<open>String()\<close> on a number, \<open>String.prototype.trim\<close> and
  \<open>String.prototype.toLowerCase\<close>. They are not code of the repository, so the engine
  takes them as a parameter.
\<close>

record 'n runtime =
  parseFloat :: "string \<Rightarrow> 'n"
  isNaN :: "'n \<Rightarrow> bool"
  numAdd :: "'n \<Rightarrow> 'n \<Rightarrow> 'n"
  numSub :: "'n \<Rightarrow> 'n \<Rightarrow> 'n"
  numMul :: "'n \<Rightarrow> 'n \<Rightarrow> 'n"
  numDiv :: "'n \<Rightarrow> 'n \<Rightarrow> 'n"
  mathMin :: "'n \<Rightarrow> 'n \<Rightarrow> 'n"
  mathMax :: "'n \<Rightarrow> 'n \<Rightarrow> 'n"
  mathRound :: "'n \<Rightarrow> 'n"
  numLit :: "int \<Rightarrow> 'n"
  numEq :: "'n \<Rightarrow> 'n \<Rightarrow> bool"
  numToString :: "'n \<Rightarrow> string"
  trim :: "string \<Rightarrow> string"
  toLowerCase :: "string \<Rightarrow> string"

definition isNullish :: "'n jsval \<Rightarrow> bool" where
  "isNullish v = (v = Null \<or> v = Undefined)"

text \<open>\<open>String(v)\<close>.\<close>

fun jsString :: "'n runtime \<Rightarrow> 'n jsval \<Rightarrow> string" where
  "jsString rt Null = ''null''"
| "jsString rt Undefined = ''undefined''"
| "jsString rt (Str s) = s"
| "jsString rt (Num n) = numToString rt n"
| "jsString rt (Bool b) = (if b then ''true'' else ''false'')"
| "jsString rt (DateObj r s) = s"

text \<open>\<open>v === w\<close>: primitives by value, objects by reference.\<close>

fun strictEq :: "'n runtime \<Rightarrow> 'n jsval \<Rightarrow> 'n jsval \<Rightarrow> bool" where
  "strictEq rt Null Null = True"
| "strictEq rt Undefined Undefined = True"
| "strictEq rt (Str s) (Str t) = (s = t)"
| "strictEq rt (Num m) (Num n) = numEq rt m n"
| "strictEq rt (Bool b) (Bool c) = (b = c)"
| "strictEq rt (DateObj r s) (DateObj q t) = (r = q)"
| "strictEq rt _ _ = False"

section \<open>Rows, datasets and configuration\<close>

text \<open>
  A row is a JavaScript object: its keys in insertion order with their values, and the
  reference \<open>ident\<close> that \<open>===\<close> compares on objects. Reading a missing key gives
  \<open>undefined\<close>; assigning to a key overwrites it in place or appends it. (Properties
  inherited from \<open>Object.prototype\<close> and the numeric-key ordering of \<open>Object.keys\<close> are
  outside this model: column names are taken to be ordinary names.)
\<close>

record 'n row =
  ident :: nat
  props :: "(string \<times> 'n jsval) list"

definition keys :: "'n row \<Rightarrow> string list" where
  "keys r = map fst (props r)"

definition hasKey :: "string \<Rightarrow> (string \<times> 'n jsval) list \<Rightarrow> bool" where
  "hasKey k fs = (k \<in> set (map fst fs))"

definition getProp :: "(string \<times> 'n jsval) list \<Rightarrow> string \<Rightarrow> 'n jsval" where
  "getProp fs k = (case map_of fs k of None \<Rightarrow> Undefined | Some v \<Rightarrow> v)"

definition setProp :: "string \<Rightarrow> 'n jsval \<Rightarrow> (string \<times> 'n jsval) list \<Rightarrow> (string \<times> 'n jsval) list" where
  "setProp k v fs = AList.update k v fs"

datatype fileType = Excel | Csv

record 'n FileData =
  fid :: string
  fname :: string
  originalName :: string
  data :: "'n row list"
  columns :: "string list"
  rowCount :: nat
  ftype :: fileType
  uploadedAt :: int

record ColumnMapping =
  file1Column :: string
  file2Column :: string

record MergeOperation =
  column :: string
  operation :: string

record MergeOptions =
  operations :: "MergeOperation list"

record 'n DuplicatePair =
  file1Record :: "'n row"
  file2Record :: "'n row"

record Stats =
  totalFile1 :: int
  totalFile2 :: int
  duplicateCount :: int
  uniqueFile1Count :: int
  uniqueFile2Count :: int
  mergedCount :: int

text \<open>
  \<open>ProcessedData\<close>. The engine produces it with arrays for the four result sets and a
  statistics object; the validator inspects it as a runtime value, where an "array" may
  have any shape and the statistics may be missing, so the two field types are parameters.
\<close>

record ('arr, 'st) ProcessedData =
  duplicates :: 'arr
  uniqueInFile1 :: 'arr
  uniqueInFile2 :: 'arr
  merged :: 'arr
  stats :: 'st
  processedAt :: int

section \<open>Match engine\<close>

text \<open>\<open>getColumnValue\<close>: an empty column name is falsy.\<close>

definition getColumnValue :: "'n row \<Rightarrow> string \<Rightarrow> 'n jsval" where
  "getColumnValue r columnName =
     (if columnName = [] then Null
      else (let v = getProp (props r) columnName in if isNullish v then Null else v))"

definition isValueMatch :: "'n runtime \<Rightarrow> 'n jsval \<Rightarrow> 'n jsval \<Rightarrow> bool" where
  "isValueMatch rt value1 value2 =
     (if isNullish value1 \<or> isNullish value2 then strictEq rt value1 value2
      else (let str1 = toLowerCase rt (trim rt (jsString rt value1));
                str2 = toLowerCase rt (trim rt (jsString rt value2))
            in str1 = str2))"

text \<open>
  The inner loop of \<open>findDuplicatesAndUnique\<close>: scan the working copy from index \<open>i\<close> and
  stop at the first record whose key matches; \<open>None\<close> when the scan reaches the end.
\<close>

function scanFile2 :: "'n runtime \<Rightarrow> ColumnMapping \<Rightarrow> 'n jsval \<Rightarrow> 'n row list \<Rightarrow> nat \<Rightarrow> nat option" where
  "scanFile2 rt cm file1Value work i =
     (if i < length work then
        (if isValueMatch rt file1Value (getColumnValue (work ! i) (file2Column cm))
         then Some i
         else scanFile2 rt cm file1Value work (Suc i))
      else None)"
  by pat_completeness auto
termination
  by (relation "measure (\<lambda>(rt, cm, v, w, i). length w - i)") auto

declare scanFile2.simps [simp del]

text \<open>\<open>xs.splice(i, 1)\<close>.\<close>

definition splice1 :: "nat \<Rightarrow> 'a list \<Rightarrow> 'a list" where
  "splice1 i xs = take i xs @ drop (Suc i) xs"

text \<open>
  The outer loop over the records of file 1, with the three arrays it builds as the
  state: the pairs found, the records unique to file 1, and the working copy of file 2.
\<close>

fun matchLoop :: "'n runtime \<Rightarrow> ColumnMapping \<Rightarrow> 'n row list
    \<Rightarrow> 'n DuplicatePair list \<times> 'n row list \<times> 'n row list
    \<Rightarrow> 'n DuplicatePair list \<times> 'n row list \<times> 'n row list" where
  "matchLoop rt cm [] acc = acc"
| "matchLoop rt cm (r1 # rest) (dups, u1, u2) =
     (case scanFile2 rt cm (getColumnValue r1 (file1Column cm)) u2 0 of
        Some i \<Rightarrow>
          matchLoop rt cm rest
            (dups @ [\<lparr>file1Record = r1, file2Record = u2 ! i\<rparr>], u1, splice1 i u2)
      | None \<Rightarrow> matchLoop rt cm rest (dups, u1 @ [r1], u2))"

definition findDuplicatesAndUnique :: "'n runtime \<Rightarrow> 'n FileData \<Rightarrow> 'n FileData \<Rightarrow> ColumnMapping
    \<Rightarrow> 'n DuplicatePair list \<times> 'n row list \<times> 'n row list" where
  "findDuplicatesAndUnique rt file1 file2 cm = matchLoop rt cm (data file1) ([], [], data file2)"

section \<open>Merge engine\<close>

text \<open>
  \<open>performNumericOperation\<close>: both operands go through \<open>parseFloat(String(v))\<close>; when
  either is \<open>NaN\<close> the first operand is returned as it is, otherwise the result of the
  operation is rounded with \<open>Math.round(result * 100) / 100\<close>.
\<close>

definition performNumericOperation ::
    "'n runtime \<Rightarrow> 'n jsval \<Rightarrow> 'n jsval \<Rightarrow> ('n \<Rightarrow> 'n \<Rightarrow> 'n) \<Rightarrow> 'n jsval" where
  "performNumericOperation rt value1 value2 f =
     (let num1 = parseFloat rt (jsString rt value1);
          num2 = parseFloat rt (jsString rt value2)
      in if isNaN rt num1 \<or> isNaN rt num2 then value1
         else (let result = f num1 num2
               in Num (numDiv rt (mathRound rt (numMul rt result (numLit rt 100))) (numLit rt 100))))"

text \<open>
  \<open>applyMergeOperation\<close>: the two null checks come first, then the \<open>switch\<close> on the
  operation string, whose \<open>default\<close> branch keeps the first value.
\<close>

definition applyMergeOperation :: "'n runtime \<Rightarrow> 'n jsval \<Rightarrow> 'n jsval \<Rightarrow> string \<Rightarrow> 'n jsval" where
  "applyMergeOperation rt value1 value2 opr =
     (if isNullish value1 then (if opr = ''TAKE_OLD'' then value1 else value2)
      else if isNullish value2 then (if opr = ''TAKE_NEW'' then value2 else value1)
      else if opr = ''MERGE_ALL'' then value1
      else if opr = ''TAKE_NEW'' then value2
      else if opr = ''TAKE_OLD'' then value1
      else if opr = ''SUM'' then
        performNumericOperation rt value1 value2 (\<lambda>a b. numAdd rt a b)
      else if opr = ''SUBTRACT'' then
        performNumericOperation rt value1 value2 (\<lambda>a b. numSub rt a b)
      else if opr = ''MULTIPLY'' then
        performNumericOperation rt value1 value2 (\<lambda>a b. numMul rt a b)
      else if opr = ''DIVIDE'' then
        performNumericOperation rt value1 value2
          (\<lambda>a b. if \<not> numEq rt b (numLit rt 0) then numDiv rt a b else a)
      else if opr = ''AVG'' then
        performNumericOperation rt value1 value2 (\<lambda>a b. numDiv rt (numAdd rt a b) (numLit rt 2))
      else if opr = ''MIN'' then
        performNumericOperation rt value1 value2 (\<lambda>a b. mathMin rt a b)
      else if opr = ''MAX'' then
        performNumericOperation rt value1 value2 (\<lambda>a b. mathMax rt a b)
      else if opr = ''CONCATENATE'' then
        Str (jsString rt value1 @ '' | '' @ jsString rt value2)
      else value1)"

text \<open>\<open>mergeOptions.operations.find((op) => op.operation === "MERGE_ALL")\<close>.\<close>

definition mergeAllOperation :: "MergeOptions \<Rightarrow> MergeOperation option" where
  "mergeAllOperation mo = find (\<lambda>opn. operation opn = ''MERGE_ALL'') (operations mo)"

text \<open>
  The \<open>forEach\<close> over \<open>Object.keys(file2Record)\<close> of the merge-all branch; the merged
  record is updated as the loop goes, so a later key sees the columns added before it.
\<close>

fun mergeAllColumns :: "'n runtime \<Rightarrow> 'n row \<Rightarrow> string list
    \<Rightarrow> (string \<times> 'n jsval) list \<Rightarrow> (string \<times> 'n jsval) list" where
  "mergeAllColumns rt r2 [] m = m"
| "mergeAllColumns rt r2 (k # ks) m =
     mergeAllColumns rt r2 ks
       (if hasKey k m \<and> \<not> strictEq rt (getProp m k) (getProp (props r2) k)
        then setProp (''file2_'' @ k) (getProp (props r2) k) m
        else if \<not> hasKey k m then setProp k (getProp (props r2) k) m
        else m)"

text \<open>The \<open>for\<close> loop over the operations of the column-specific branch.\<close>

fun applyOperations :: "'n runtime \<Rightarrow> 'n row \<Rightarrow> 'n row \<Rightarrow> MergeOperation list
    \<Rightarrow> (string \<times> 'n jsval) list \<Rightarrow> (string \<times> 'n jsval) list" where
  "applyOperations rt r1 r2 [] m = m"
| "applyOperations rt r1 r2 (opn # rest) m =
     (if operation opn = ''MERGE_ALL'' then applyOperations rt r1 r2 rest m
      else applyOperations rt r1 r2 rest
             (setProp (column opn)
                (applyMergeOperation rt (getProp (props r1) (column opn))
                   (getProp (props r2) (column opn)) (operation opn))
                m))"

text \<open>
  The callback of the \<open>map\<close> in \<open>mergeDuplicateRecords\<close>. The merged record is a new
  object (\<open>{ ...file1Record }\<close>); \<open>ref\<close> is the reference it gets.
\<close>

definition mergePair :: "'n runtime \<Rightarrow> MergeOptions \<Rightarrow> nat \<Rightarrow> 'n DuplicatePair \<Rightarrow> 'n row" where
  "mergePair rt mo ref p =
     (case mergeAllOperation mo of
        Some _ \<Rightarrow>
          \<lparr>ident = ref,
           props = mergeAllColumns rt (file2Record p) (keys (file2Record p)) (props (file1Record p))\<rparr>
      | None \<Rightarrow>
          \<lparr>ident = ref,
           props = applyOperations rt (file1Record p) (file2Record p) (operations mo)
                     (props (file1Record p))\<rparr>)"

text \<open>\<open>mergeDuplicateRecords\<close>; \<open>ref\<close> is the first free object reference.\<close>

fun mergeDuplicateRecords :: "'n runtime \<Rightarrow> nat \<Rightarrow> 'n DuplicatePair list \<Rightarrow> MergeOptions \<Rightarrow> 'n row list" where
  "mergeDuplicateRecords rt ref [] mo = []"
| "mergeDuplicateRecords rt ref (p # ps) mo =
     mergePair rt mo ref p # mergeDuplicateRecords rt (Suc ref) ps mo"

section \<open>Processing pipeline\<close>

datatype inputError =
    File1Empty
  | File2Empty
  | MappingIncomplete
  | ColumnNotInFile1 string
  | ColumnNotInFile2 string
  | NoOperations
  | InvalidOperation
  | OperationColumnNotFound string
  | MissingOperation

datatype processingError = ProcessingFailed inputError

text \<open>The two loops over the operations in \<open>validateProcessingInputs\<close>.\<close>

fun checkOperationColumns :: "string list \<Rightarrow> MergeOperation list \<Rightarrow> inputError + unit" where
  "checkOperationColumns allColumns [] = Inr ()"
| "checkOperationColumns allColumns (opn # rest) =
     (if column opn = [] \<or> operation opn = [] then Inl InvalidOperation
      else if column opn \<notin> set allColumns then Inl (OperationColumnNotFound (column opn))
      else checkOperationColumns allColumns rest)"

fun checkOperationNames :: "MergeOperation list \<Rightarrow> inputError + unit" where
  "checkOperationNames [] = Inr ()"
| "checkOperationNames (opn # rest) =
     (if operation opn = [] then Inl MissingOperation else checkOperationNames rest)"

text \<open>
  \<open>validateProcessingInputs\<close>, on typed arguments: the files and their \<open>data\<close> arrays are
  there, so of the first two checks the length test remains. An empty string is falsy.
\<close>

definition validateProcessingInputs ::
    "'n FileData \<Rightarrow> 'n FileData \<Rightarrow> ColumnMapping \<Rightarrow> MergeOptions \<Rightarrow> inputError + unit" where
  "validateProcessingInputs file1 file2 cm mo =
     (if data file1 = [] then Inl File1Empty
      else if data file2 = [] then Inl File2Empty
      else if file1Column cm = [] \<or> file2Column cm = [] then Inl MappingIncomplete
      else if file1Column cm \<notin> set (columns file1) then Inl (ColumnNotInFile1 (file1Column cm))
      else if file2Column cm \<notin> set (columns file2) then Inl (ColumnNotInFile2 (file2Column cm))
      else if operations mo = [] then Inl NoOperations
      else (case (if list_ex (\<lambda>opn. operation opn = ''MERGE_ALL'') (operations mo) then Inr ()
                  else checkOperationColumns (columns file1 @ columns file2) (operations mo)) of
              Inl e \<Rightarrow> Inl e
            | Inr _ \<Rightarrow> checkOperationNames (operations mo)))"

definition calculateStatistics :: "'n FileData \<Rightarrow> 'n FileData \<Rightarrow> 'n DuplicatePair list
    \<Rightarrow> 'n row list \<Rightarrow> 'n row list \<Rightarrow> 'n row list \<Rightarrow> Stats" where
  "calculateStatistics file1 file2 dups u1 u2 mrg =
     \<lparr>totalFile1 = int (length (data file1)),
      totalFile2 = int (length (data file2)),
      duplicateCount = int (length dups),
      uniqueFile1Count = int (length u1),
      uniqueFile2Count = int (length u2),
      mergedCount = int (length mrg)\<rparr>"

text \<open>
  Object allocation. The records that the pipeline creates are new objects, so their
  references differ from those of every row of the two files: the first free reference
  is one above the largest in use.
\<close>

definition firstFreeRef :: "'n FileData \<Rightarrow> 'n FileData \<Rightarrow> nat" where
  "firstFreeRef file1 file2 = Suc (fold max (map ident (data file1 @ data file2)) 0)"

text \<open>
  The \<open>forEach\<close> over \<open>file2.data\<close> of the merge-all branch: a record of file 2 that is
  not the \<open>file2Record\<close> of a pair (compared with \<open>===\<close>) is copied into a new object and
  pushed. The loop over its keys in the source has an empty body.
\<close>

fun appendUnpaired :: "'n DuplicatePair list \<Rightarrow> 'n row list \<Rightarrow> 'n row list \<times> nat \<Rightarrow> 'n row list \<times> nat" where
  "appendUnpaired dups [] acc = acc"
| "appendUnpaired dups (r2 # rest) (mrg, ref) =
     (if list_ex (\<lambda>dup. ident (file2Record dup) = ident r2) dups
      then appendUnpaired dups rest (mrg, ref)
      else appendUnpaired dups rest (mrg @ [\<lparr>ident = ref, props = props r2\<rparr>], Suc ref))"

text \<open>\<open>xs.findIndex(p)\<close>, with \<open>None\<close> for \<open>-1\<close>.\<close>

fun findIndex :: "('a \<Rightarrow> bool) \<Rightarrow> 'a list \<Rightarrow> nat option" where
  "findIndex P [] = None"
| "findIndex P (x # xs) = (if P x then Some 0 else map_option Suc (findIndex P xs))"

text \<open>
  The last \<open>forEach\<close> of the merge-all branch, over the pairs and their index:
  \<open>duplicateMerged\<close> has one entry per pair, so the two arrays are walked together.
\<close>

definition replacePaired :: "'n DuplicatePair list \<Rightarrow> 'n row list \<Rightarrow> 'n row list \<Rightarrow> 'n row list" where
  "replacePaired dups duplicateMerged mrg =
     fold (\<lambda>(dup, m) acc.
             (case findIndex (\<lambda>r. ident r = ident (file1Record dup)) acc of
                Some file1Index \<Rightarrow> acc[file1Index := m]
              | None \<Rightarrow> acc))
          (zip dups duplicateMerged) mrg"

text \<open>
  \<open>processDuplicates\<close>. \<open>now\<close> is the clock read by \<open>new Date()\<close>; an error thrown inside
  the \<open>try\<close> block is thrown again, wrapped.
\<close>

definition processDuplicates :: "'n runtime \<Rightarrow> int \<Rightarrow> 'n FileData \<Rightarrow> 'n FileData \<Rightarrow> ColumnMapping
    \<Rightarrow> MergeOptions \<Rightarrow> processingError + ('n row list, Stats) ProcessedData" where
  "processDuplicates rt now file1 file2 cm mo =
     (case validateProcessingInputs file1 file2 cm mo of
        Inl e \<Rightarrow> Inl (ProcessingFailed e)
      | Inr _ \<Rightarrow>
          (case findDuplicatesAndUnique rt file1 file2 cm of
             (dups, u1, u2) \<Rightarrow>
               (let mrg =
                  (case mergeAllOperation mo of
                     Some _ \<Rightarrow>
                       (case appendUnpaired dups (data file2) (data file1, firstFreeRef file1 file2) of
                          (mrg0, ref) \<Rightarrow>
                            replacePaired dups (mergeDuplicateRecords rt ref dups mo) mrg0)
                   | None \<Rightarrow> mergeDuplicateRecords rt (firstFreeRef file1 file2) dups mo)
                in Inr \<lparr>duplicates = map file1Record dups,
                        uniqueInFile1 = u1,
                        uniqueInFile2 = u2,
                        merged = mrg,
                        stats = calculateStatistics file1 file2 dups u1 u2 mrg,
                        processedAt = now\<rparr>)))"

section \<open>A reference runtime\<close>

text \<open>
  One runtime on which the engine can be run: numbers are \<open>NaN\<close> or an exact rational.
  It leaves out what a double adds to that (rounding to 53 bits, the infinities, the
  signed zero) and reads ASCII only; the general theorems below hold for every runtime
  and use this one for their concrete instances.
\<close>

datatype jsnum = NaN | Fin rat

definition isSpaceChar :: "char \<Rightarrow> bool" where
  "isSpaceChar c = (c \<in> set [CHR '' '', CHR 0x09, CHR 0x0A, CHR 0x0B, CHR 0x0C, CHR 0x0D])"

definition isDigitChar :: "char \<Rightarrow> bool" where
  "isDigitChar c = (48 \<le> (of_char c :: nat) \<and> (of_char c :: nat) \<le> 57)"

definition digitsValue :: "string \<Rightarrow> nat" where
  "digitsValue ds = foldl (\<lambda>a c. 10 * a + ((of_char c :: nat) - 48)) 0 ds"

text \<open>The exponent part \<open>e\<close>, \<open>e+\<close> or \<open>e-\<close> followed by digits, if the text starts with one.\<close>

definition exponentPart :: "string \<Rightarrow> int" where
  "exponentPart s =
     (case s of
        [] \<Rightarrow> 0
      | c # t \<Rightarrow>
          (if c = CHR ''e'' \<or> c = CHR ''E'' then
             (case t of
                [] \<Rightarrow> 0
              | d # u \<Rightarrow>
                  (if d = CHR ''-'' then - int (digitsValue (takeWhile isDigitChar u))
                   else if d = CHR ''+'' then int (digitsValue (takeWhile isDigitChar u))
                   else int (digitsValue (takeWhile isDigitChar t))))
           else 0))"

text \<open>
  \<open>parseFloat\<close>: leading white space is skipped, then the longest prefix that is a
  decimal literal is read; \<open>NaN\<close> when there is none.
\<close>

definition refParseFloat :: "string \<Rightarrow> jsnum" where
  "refParseFloat s =
     (let s1 = dropWhile isSpaceChar s;
          signed = (s1 \<noteq> [] \<and> (hd s1 = CHR ''-'' \<or> hd s1 = CHR ''+''));
          negative = (s1 \<noteq> [] \<and> hd s1 = CHR ''-'');
          s2 = (if signed then tl s1 else s1);
          ip = takeWhile isDigitChar s2;
          s3 = dropWhile isDigitChar s2;
          dotted = (s3 \<noteq> [] \<and> hd s3 = CHR ''.'');
          fp = (if dotted then takeWhile isDigitChar (tl s3) else []);
          s4 = (if dotted then dropWhile isDigitChar (tl s3) else s3);
          ex = exponentPart s4;
          mant = rat_of_nat (digitsValue (ip @ fp)) / 10 ^ length fp;
          scaled = (if 0 \<le> ex then mant * 10 ^ nat ex else mant / 10 ^ nat (- ex))
      in if ip = [] \<and> fp = [] then NaN
         else Fin (if negative then - scaled else scaled))"

function digitsOf :: "nat \<Rightarrow> string" where
  "digitsOf n = (if n < 10 then [char_of (48 + n)] else digitsOf (n div 10) @ [char_of (48 + n mod 10)])"
  by pat_completeness auto
termination
  by (relation "measure (\<lambda>n. n)") auto

declare digitsOf.simps [simp del]

fun fractionDigits :: "nat \<Rightarrow> rat \<Rightarrow> string" where
  "fractionDigits 0 q = []"
| "fractionDigits (Suc k) q =
     (if q = 0 then []
      else char_of (48 + nat \<lfloor>q * 10\<rfloor>) # fractionDigits k (q * 10 - rat_of_int \<lfloor>q * 10\<rfloor>))"

text \<open>\<open>String(n)\<close>: decimal notation, with at most sixteen fractional digits.\<close>

fun refNumToString :: "jsnum \<Rightarrow> string" where
  "refNumToString NaN = ''NaN''"
| "refNumToString (Fin q) =
     (if q < 0 then [CHR ''-''] else []) @ digitsOf (nat \<lfloor>\<bar>q\<bar>\<rfloor>) @
     (if \<bar>q\<bar> = rat_of_int \<lfloor>\<bar>q\<bar>\<rfloor> then []
      else CHR ''.'' # fractionDigits 16 (\<bar>q\<bar> - rat_of_int \<lfloor>\<bar>q\<bar>\<rfloor>))"

fun numBinary :: "(rat \<Rightarrow> rat \<Rightarrow> rat) \<Rightarrow> jsnum \<Rightarrow> jsnum \<Rightarrow> jsnum" where
  "numBinary f (Fin a) (Fin b) = Fin (f a b)"
| "numBinary f _ _ = NaN"

text \<open>Division; a zero divisor, which the engine never passes, gives \<open>NaN\<close> here.\<close>

fun refDiv :: "jsnum \<Rightarrow> jsnum \<Rightarrow> jsnum" where
  "refDiv (Fin a) (Fin b) = (if b = 0 then NaN else Fin (a / b))"
| "refDiv _ _ = NaN"

text \<open>\<open>Math.round\<close> rounds half up.\<close>

fun refRound :: "jsnum \<Rightarrow> jsnum" where
  "refRound (Fin q) = Fin (rat_of_int \<lfloor>q + 1 / 2\<rfloor>)"
| "refRound NaN = NaN"

definition refTrim :: "string \<Rightarrow> string" where
  "refTrim s = rev (dropWhile isSpaceChar (rev (dropWhile isSpaceChar s)))"

definition refLowerChar :: "char \<Rightarrow> char" where
  "refLowerChar c =
     (if 65 \<le> (of_char c :: nat) \<and> (of_char c :: nat) \<le> 90 then char_of ((of_char c :: nat) + 32) else c)"

definition refRuntime :: "jsnum runtime" where
  "refRuntime =
     \<lparr>parseFloat = refParseFloat,
      isNaN = (\<lambda>x. x = NaN),
      numAdd = numBinary (\<lambda>a b. a + b),
      numSub = numBinary (\<lambda>a b. a - b),
      numMul = numBinary (\<lambda>a b. a * b),
      numDiv = refDiv,
      mathMin = numBinary min,
      mathMax = numBinary max,
      mathRound = refRound,
      numLit = (\<lambda>i. Fin (rat_of_int i)),
      numEq = (\<lambda>a b. a = b \<and> a \<noteq> NaN),
      numToString = refNumToString,
      trim = refTrim,
      toLowerCase = map refLowerChar\<rparr>"

section \<open>The matching policy, as specified\<close>

text \<open>
  The policy in the words of the specification, to compare the loops above with: the
  records of A are taken in order; each pairs with the first remaining record of B whose
  key matches, and that record leaves the working copy; a record of A without a match
  is unique to A; what remains of the working copy is unique to B.
\<close>

definition keysMatch :: "'n runtime \<Rightarrow> ColumnMapping \<Rightarrow> 'n row \<Rightarrow> 'n row \<Rightarrow> bool" where
  "keysMatch rt cm a b =
     isValueMatch rt (getColumnValue a (file1Column cm)) (getColumnValue b (file2Column cm))"

fun removeFirst :: "('a \<Rightarrow> bool) \<Rightarrow> 'a list \<Rightarrow> 'a list" where
  "removeFirst P [] = []"
| "removeFirst P (x # xs) = (if P x then xs else x # removeFirst P xs)"

fun greedyMatch :: "('n row \<Rightarrow> 'n row \<Rightarrow> bool) \<Rightarrow> 'n row list \<Rightarrow> 'n row list
    \<Rightarrow> 'n DuplicatePair list \<times> 'n row list \<times> 'n row list" where
  "greedyMatch matches [] bs = ([], [], bs)"
| "greedyMatch matches (a # as) bs =
     (case find (matches a) bs of
        Some b \<Rightarrow>
          (case greedyMatch matches as (removeFirst (matches a) bs) of
             (pairs, ua, ub) \<Rightarrow> (\<lparr>file1Record = a, file2Record = b\<rparr> # pairs, ua, ub))
      | None \<Rightarrow>
          (case greedyMatch matches as bs of
             (pairs, ua, ub) \<Rightarrow> (pairs, a # ua, ub)))"

section \<open>Result validator\<close>

text \<open>
  What the validator may find where the type promises an array: an array, \<open>null\<close> or
  \<open>undefined\<close>, or some other value. Reading \<open>.length\<close> of \<open>null\<close> or \<open>undefined\<close>
  throws a \<open>TypeError\<close>; another value has a numeric \<open>length\<close> property (a string has)
  or none.
\<close>

datatype 'a jsArrayish = IsArray "'a list" | NullOrUndefined | NotArray "int option"

datatype typeError = TypeError

fun isArray :: "'a jsArrayish \<Rightarrow> bool" where
  "isArray (IsArray xs) = True"
| "isArray _ = False"

fun lengthOf :: "'a jsArrayish \<Rightarrow> typeError + int option" where
  "lengthOf (IsArray xs) = Inr (Some (int (length xs)))"
| "lengthOf NullOrUndefined = Inl TypeError"
| "lengthOf (NotArray l) = Inr l"

record ValidationResult =
  valid :: bool
  errors :: "string list"

text \<open>
  \<open>validateResults\<close>. The argument is \<open>None\<close> when \<open>results\<close> is missing, and its
  \<open>stats\<close> are \<open>None\<close> when they are. The four \<open>.length\<close> reads happen in the order of
  the source, and the first that throws ends the call.
\<close>

definition validateResults ::
    "('a jsArrayish, Stats option) ProcessedData option \<Rightarrow> typeError + ValidationResult" where
  "validateResults results =
     (case results of
        None \<Rightarrow> Inr \<lparr>valid = False, errors = [''Results data is missing'']\<rparr>
      | Some r \<Rightarrow>
          (let shapeErrors =
                 (if \<not> isArray (duplicates r) then [''Duplicates data is invalid''] else []) @
                 (if \<not> isArray (uniqueInFile1 r) then [''Unique File 1 data is invalid''] else []) @
                 (if \<not> isArray (uniqueInFile2 r) then [''Unique File 2 data is invalid''] else []) @
                 (if \<not> isArray (merged r) then [''Merged data is invalid''] else [])
           in case stats r of
                None \<Rightarrow>
                  (let errs = shapeErrors @ [''Statistics data is missing'']
                   in Inr \<lparr>valid = (length errs = 0), errors = errs\<rparr>)
              | Some st \<Rightarrow>
                  (case lengthOf (duplicates r) of
                     Inl e \<Rightarrow> Inl e
                   | Inr l1 \<Rightarrow>
                  (case lengthOf (uniqueInFile1 r) of
                     Inl e \<Rightarrow> Inl e
                   | Inr l2 \<Rightarrow>
                  (case lengthOf (uniqueInFile2 r) of
                     Inl e \<Rightarrow> Inl e
                   | Inr l3 \<Rightarrow>
                  (case lengthOf (merged r) of
                     Inl e \<Rightarrow> Inl e
                   | Inr l4 \<Rightarrow>
                       (let errs = shapeErrors @
                              (if Some (duplicateCount st) \<noteq> l1 then [''Duplicate count mismatch''] else []) @
                              (if Some (uniqueFile1Count st) \<noteq> l2 then [''Unique File 1 count mismatch''] else []) @
                              (if Some (uniqueFile2Count st) \<noteq> l3 then [''Unique File 2 count mismatch''] else []) @
                              (if Some (mergedCount st) \<noteq> l4 then [''Merged count mismatch''] else []) @
                              (if duplicateCount st + uniqueFile1Count st \<noteq> totalFile1 st
                               then [''File 1 total count mismatch''] else []) @
                              (if duplicateCount st + uniqueFile2Count st \<noteq> totalFile2 st
                               then [''File 2 total count mismatch''] else [])
                        in Inr \<lparr>valid = (length errs = 0), errors = errs\<rparr>)))))))"

text \<open>The value that the pipeline hands to the validator: arrays and statistics in place.\<close>

definition asRuntimeValue :: "('a list, Stats) ProcessedData \<Rightarrow> ('a jsArrayish, Stats option) ProcessedData" where
  "asRuntimeValue r =
     \<lparr>duplicates = IsArray (duplicates r),
      uniqueInFile1 = IsArray (uniqueInFile1 r),
      uniqueInFile2 = IsArray (uniqueInFile2 r),
      merged = IsArray (merged r),
      stats = Some (stats r),
      processedAt = processedAt r\<rparr>"

section \<open>Session store\<close>

record 'n SessionFiles =
  file1 :: "'n FileData option"
  file2 :: "'n FileData option"

record 'n UserSession =
  sessionId :: string
  files :: "'n SessionFiles"
  columnMapping :: "ColumnMapping option"
  mergeOptions :: "MergeOptions option"
  results :: "('n row list, Stats) ProcessedData option"
  createdAt :: int
  lastActivity :: int

text \<open>
  \<open>Partial<UserSession>\<close>: \<open>None\<close> is a key that the update does not carry. For the
  optional keys of a session, \<open>Some None\<close> is the key carried with the value
  \<open>undefined\<close>, which the spread copies like any other.
\<close>

record 'n SessionUpdates =
  updId :: "string option"
  updFiles :: "'n SessionFiles option"
  updColumnMapping :: "ColumnMapping option option"
  updMergeOptions :: "MergeOptions option option"
  updResults :: "('n row list, Stats) ProcessedData option option"
  updCreatedAt :: "int option"
  updLastActivity :: "int option"

text \<open>
  The module state: the two maps of the source, and the timers that \<open>setTimeout\<close> has
  armed and that have neither fired nor been cleared. Times are in milliseconds; the
  operations take the reading of the clock as the argument \<open>now\<close>.
\<close>

record timer =
  handle :: nat
  timerSession :: string
  due :: int

record 'n store =
  sessions :: "string \<rightharpoonup> 'n UserSession"
  cleanupTimeouts :: "string \<rightharpoonup> nat"
  timers :: "timer list"
  nextHandle :: nat

definition SESSION_TIMEOUT :: int where
  "SESSION_TIMEOUT = 15 * 60 * 1000"

definition clearTimeout :: "nat \<Rightarrow> 'n store \<Rightarrow> 'n store" where
  "clearTimeout h st = st\<lparr>timers := filter (\<lambda>t. handle t \<noteq> h) (timers st)\<rparr>"

text \<open>\<open>setTimeout(callback, SESSION_TIMEOUT)\<close> for the cleanup callback of \<open>sid\<close>.\<close>

definition setTimeout :: "int \<Rightarrow> string \<Rightarrow> 'n store \<Rightarrow> nat \<times> 'n store" where
  "setTimeout now sid st =
     (nextHandle st,
      st\<lparr>timers := timers st @ [\<lparr>handle = nextHandle st, timerSession = sid, due = now + SESSION_TIMEOUT\<rparr>],
         nextHandle := Suc (nextHandle st)\<rparr>)"

definition scheduleSessionCleanup :: "int \<Rightarrow> string \<Rightarrow> 'n store \<Rightarrow> 'n store" where
  "scheduleSessionCleanup now sid st =
     (let st1 = (case cleanupTimeouts st sid of Some existing \<Rightarrow> clearTimeout existing st | None \<Rightarrow> st)
      in case setTimeout now sid st1 of
           (h, st2) \<Rightarrow> st2\<lparr>cleanupTimeouts := (cleanupTimeouts st2)(sid \<mapsto> h)\<rparr>)"

definition deleteSession :: "string \<Rightarrow> 'n store \<Rightarrow> bool \<times> 'n store" where
  "deleteSession sid st =
     (case sessions st sid of
        Some s \<Rightarrow>
          (let st1 = (case cleanupTimeouts st sid of
                        Some h \<Rightarrow> (clearTimeout h st)\<lparr>cleanupTimeouts := (cleanupTimeouts st)(sid := None)\<rparr>
                      | None \<Rightarrow> st)
           in (True, st1\<lparr>sessions := (sessions st1)(sid := None)\<rparr>))
      | None \<Rightarrow> (False, st))"

text \<open>\<open>createSession\<close>; \<open>newId\<close> is what \<open>uuidv4()\<close> returns.\<close>

definition createSession :: "string \<Rightarrow> int \<Rightarrow> 'n store \<Rightarrow> 'n UserSession \<times> 'n store" where
  "createSession newId now st =
     (let s = \<lparr>sessionId = newId, files = \<lparr>file1 = None, file2 = None\<rparr>, columnMapping = None,
               mergeOptions = None, results = None, createdAt = now, lastActivity = now\<rparr>
      in (s, scheduleSessionCleanup now newId (st\<lparr>sessions := (sessions st)(newId \<mapsto> s)\<rparr>)))"

definition getSession :: "int \<Rightarrow> string \<Rightarrow> 'n store \<Rightarrow> 'n UserSession option \<times> 'n store" where
  "getSession now sid st =
     (case sessions st sid of
        None \<Rightarrow> (None, st)
      | Some s \<Rightarrow>
          (if now - lastActivity s > SESSION_TIMEOUT then (None, snd (deleteSession sid st))
           else (let s' = s\<lparr>lastActivity := now\<rparr>
                 in (Some s', scheduleSessionCleanup now sid (st\<lparr>sessions := (sessions st)(sid \<mapsto> s')\<rparr>)))))"

definition updateSession :: "int \<Rightarrow> string \<Rightarrow> 'n SessionUpdates \<Rightarrow> 'n store \<Rightarrow> bool \<times> 'n store" where
  "updateSession now sid updates st =
     (case sessions st sid of
        None \<Rightarrow> (False, st)
      | Some s \<Rightarrow>
          (let updatedSession =
                 \<lparr>sessionId = sid,
                  files = (case updFiles updates of Some v \<Rightarrow> v | None \<Rightarrow> files s),
                  columnMapping = (case updColumnMapping updates of Some v \<Rightarrow> v | None \<Rightarrow> columnMapping s),
                  mergeOptions = (case updMergeOptions updates of Some v \<Rightarrow> v | None \<Rightarrow> mergeOptions s),
                  results = (case updResults updates of Some v \<Rightarrow> v | None \<Rightarrow> results s),
                  createdAt = (case updCreatedAt updates of Some v \<Rightarrow> v | None \<Rightarrow> createdAt s),
                  lastActivity = (case updLastActivity updates of Some v \<Rightarrow> v | None \<Rightarrow> now)\<rparr>
           in (True, scheduleSessionCleanup now sid (st\<lparr>sessions := (sessions st)(sid \<mapsto> updatedSession)\<rparr>))))"

text \<open>
  The callback that \<open>scheduleSessionCleanup\<close> hands to \<open>setTimeout\<close>, run at time \<open>now\<close>.
\<close>

definition cleanupCallback :: "int \<Rightarrow> string \<Rightarrow> 'n store \<Rightarrow> 'n store" where
  "cleanupCallback now sid st =
     (let st1 = (case sessions st sid of
                   Some s \<Rightarrow>
                     (if now - lastActivity s \<ge> SESSION_TIMEOUT then snd (deleteSession sid st)
                      else scheduleSessionCleanup now sid st)
                 | None \<Rightarrow> st)
      in st1\<lparr>cleanupTimeouts := (cleanupTimeouts st1)(sid := None)\<rparr>)"

text \<open>
  The event loop runs the callback of a pending timer once it is due; the timer is no
  longer pending then. Nothing happens for a handle that is not pending or not yet due.
\<close>

definition fireTimer :: "int \<Rightarrow> nat \<Rightarrow> 'n store \<Rightarrow> 'n store" where
  "fireTimer now h st =
     (case find (\<lambda>t. handle t = h) (timers st) of
        None \<Rightarrow> st
      | Some t \<Rightarrow>
          (if now < due t then st
           else cleanupCallback now (timerSession t)
                  (st\<lparr>timers := filter (\<lambda>t. handle t \<noteq> h) (timers st)\<rparr>)))"

section \<open>Example inputs\<close>

text \<open>
  Two small datasets on the reference runtime, used for the concrete instances of the
  theorems. File A has two rows with the key \<open>X\<close>; file B has one row whose key matches
  it, up to case and white space, and one row with another key and a column of its own.
\<close>

definition mkFile :: "string \<Rightarrow> string list \<Rightarrow> 'n row list \<Rightarrow> 'n FileData" where
  "mkFile nm cols rows =
     \<lparr>fid = nm, fname = nm, originalName = nm, data = rows, columns = cols,
      rowCount = length rows, ftype = Csv, uploadedAt = 0\<rparr>"

definition rowA1 :: "jsnum row" where
  "rowA1 = \<lparr>ident = 1, props = [(''id'', Str ''X''), (''qty'', Num (Fin 1))]\<rparr>"

definition rowA2 :: "jsnum row" where
  "rowA2 = \<lparr>ident = 2, props = [(''id'', Str ''X''), (''qty'', Num (Fin 2))]\<rparr>"

definition rowB1 :: "jsnum row" where
  "rowB1 = \<lparr>ident = 3, props = [(''id'', Str '' x ''), (''qty'', Str ''5''), (''note'', Str ''n'')]\<rparr>"

definition rowB2 :: "jsnum row" where
  "rowB2 = \<lparr>ident = 4, props = [(''id'', Str ''Y''), (''qty'', Num (Fin 7))]\<rparr>"

definition fileA :: "jsnum FileData" where
  "fileA = mkFile ''a.csv'' [''id'', ''qty''] [rowA1, rowA2]"

definition fileB :: "jsnum FileData" where
  "fileB = mkFile ''b.csv'' [''id'', ''qty'', ''note''] [rowB1, rowB2]"

definition fileBX :: "jsnum FileData" where
  "fileBX = mkFile ''bx.csv'' [''id'', ''qty'', ''note''] [rowB1]"

definition idMapping :: ColumnMapping where
  "idMapping = \<lparr>file1Column = ''id'', file2Column = ''id''\<rparr>"

definition sumQty :: MergeOptions where
  "sumQty = \<lparr>operations = [\<lparr>column = ''qty'', operation = ''SUM''\<rparr>]\<rparr>"

definition takeNote :: MergeOptions where
  "takeNote = \<lparr>operations = [\<lparr>column = ''note'', operation = ''TAKE_NEW''\<rparr>]\<rparr>"

definition mergeAll :: MergeOptions where
  "mergeAll = \<lparr>operations = [\<lparr>column = ''ALL_COLUMNS'', operation = ''MERGE_ALL''\<rparr>]\<rparr>"

section \<open>Predicates used in the statements\<close>

text \<open>A value that is there and that \<open>parseFloat(String(v))\<close> reads as a number.\<close>

definition parsesAsNumber :: "'n runtime \<Rightarrow> 'n jsval \<Rightarrow> bool" where
  "parsesAsNumber rt v = (\<not> isNullish v \<and> \<not> isNaN rt (parseFloat rt (jsString rt v)))"

text \<open>What the statements about commutativity need of the numbers of a runtime.\<close>

definition commutativeArithmetic :: "'n runtime \<Rightarrow> bool" where
  "commutativeArithmetic rt =
     (\<forall>x y. numAdd rt x y = numAdd rt y x \<and> mathMin rt x y = mathMin rt y x \<and>
            mathMax rt x y = mathMax rt y x)"

section \<open>The validator's checks, as specified\<close>

text \<open>
  The \<open>length\<close> property of a value: the number of elements of an array, what a
  non-array value holds under that name, and nothing for \<open>null\<close> or \<open>undefined\<close>.
\<close>

fun lengthProperty :: "'a jsArrayish \<Rightarrow> int option" where
  "lengthProperty (IsArray xs) = Some (int (length xs))"
| "lengthProperty (NotArray l) = l"
| "lengthProperty NullOrUndefined = None"

text \<open>
  The checks in the words of the specification: the four arrays are array-shaped, each
  count equals the length of its array, and the two sums give the totals.
\<close>

definition checksPass :: "('a jsArrayish, Stats option) ProcessedData \<Rightarrow> bool" where
  "checksPass r =
     (isArray (duplicates r) \<and> isArray (uniqueInFile1 r) \<and> isArray (uniqueInFile2 r) \<and>
      isArray (merged r) \<and>
      (case stats r of
         None \<Rightarrow> False
       | Some st \<Rightarrow>
           lengthProperty (duplicates r) = Some (duplicateCount st) \<and>
           lengthProperty (uniqueInFile1 r) = Some (uniqueFile1Count st) \<and>
           lengthProperty (uniqueInFile2 r) = Some (uniqueFile2Count st) \<and>
           lengthProperty (merged r) = Some (mergedCount st) \<and>
           duplicateCount st + uniqueFile1Count st = totalFile1 st \<and>
           duplicateCount st + uniqueFile2Count st = totalFile2 st))"

text \<open>
  Accumulation without short-circuit: each check on its own contributes its message
  when it fails, in the order of the checks.
\<close>

definition failedChecks :: "('a jsArrayish, Stats option) ProcessedData \<Rightarrow> string list" where
  "failedChecks r =
     (if isArray (duplicates r) then [] else [''Duplicates data is invalid'']) @
     (if isArray (uniqueInFile1 r) then [] else [''Unique File 1 data is invalid'']) @
     (if isArray (uniqueInFile2 r) then [] else [''Unique File 2 data is invalid'']) @
     (if isArray (merged r) then [] else [''Merged data is invalid'']) @
     (case stats r of
        None \<Rightarrow> [''Statistics data is missing'']
      | Some st \<Rightarrow>
          (if lengthProperty (duplicates r) = Some (duplicateCount st) then []
           else [''Duplicate count mismatch'']) @
          (if lengthProperty (uniqueInFile1 r) = Some (uniqueFile1Count st) then []
           else [''Unique File 1 count mismatch'']) @
          (if lengthProperty (uniqueInFile2 r) = Some (uniqueFile2Count st) then []
           else [''Unique File 2 count mismatch'']) @
          (if lengthProperty (merged r) = Some (mergedCount st) then []
           else [''Merged count mismatch'']) @
          (if duplicateCount st + uniqueFile1Count st = totalFile1 st then []
           else [''File 1 total count mismatch'']) @
          (if duplicateCount st + uniqueFile2Count st = totalFile2 st then []
           else [''File 2 total count mismatch'']))"

text \<open>None of the four array fields is \<open>null\<close> or \<open>undefined\<close>.\<close>

definition arraysPresent :: "('a jsArrayish, Stats option) ProcessedData \<Rightarrow> bool" where
  "arraysPresent r =
     (duplicates r \<noteq> NullOrUndefined \<and> uniqueInFile1 r \<noteq> NullOrUndefined \<and>
      uniqueInFile2 r \<noteq> NullOrUndefined \<and> merged r \<noteq> NullOrUndefined)"


definition zeroStats :: Stats where
  "zeroStats = \<lparr>totalFile1 = 0, totalFile2 = 0, duplicateCount = 0, uniqueFile1Count = 0,
                 uniqueFile2Count = 0, mergedCount = 0\<rparr>"

definition undefinedDuplicates :: "(unit jsArrayish, Stats option) ProcessedData" where
  "undefinedDuplicates =
     \<lparr>duplicates = NullOrUndefined, uniqueInFile1 = IsArray [], uniqueInFile2 = IsArray [],
      merged = IsArray [], stats = Some zeroStats, processedAt = 0\<rparr>"


section \<open>Example store\<close>

text \<open>
  The store right after \<open>createSession\<close> at time 0 for the identifier \<open>s1\<close>, and an
  update that carries no key.
\<close>

definition emptyStore :: "jsnum store" where
  "emptyStore = \<lparr>sessions = Map.empty, cleanupTimeouts = Map.empty, timers = [], nextHandle = 0\<rparr>"

definition storeAfterCreate :: "jsnum store" where
  "storeAfterCreate = snd (createSession ''s1'' 0 emptyStore)"

definition noUpdates :: "jsnum SessionUpdates" where
  "noUpdates = \<lparr>updId = None, updFiles = None, updColumnMapping = None, updMergeOptions = None,
                 updResults = None, updCreatedAt = None, updLastActivity = None\<rparr>"

definition freshSession :: "jsnum UserSession" where
  "freshSession =
     \<lparr>sessionId = ''s1'', files = \<lparr>file1 = None, file2 = None\<rparr>, columnMapping = None,
      mergeOptions = None, results = None, createdAt = 0, lastActivity = 0\<rparr>"

section \<open>Properties of the merge operators\<close>

text \<open>
  Claim C5. For every operator and all values: when \<open>a\<close> is null or absent the result is
  \<open>b\<close>, unless the operator is \<open>TAKE_OLD\<close> (then \<open>a\<close>); otherwise, when \<open>b\<close> is null or absent
  the result is \<open>a\<close>, unless the operator is \<open>TAKE_NEW\<close> (then \<open>b\<close>). The operator is an
  arbitrary string here, so the rule holds before and whatever the dispatch.
\<close>

theorem applyMergeOperation_null_precedence:
  "(isNullish a \<longrightarrow> applyMergeOperation rt a b opr = (if opr = ''TAKE_OLD'' then a else b)) \<and>
   (\<not> isNullish a \<and> isNullish b \<longrightarrow>
      applyMergeOperation rt a b opr = (if opr = ''TAKE_NEW'' then b else a))"
  by (simp add: applyMergeOperation_def)

theorem applyMergeOperation_null_precedence_witness:
  "isNullish (Null :: jsnum jsval) \<and>
   applyMergeOperation refRuntime Null (Str ''x'') ''SUM'' = Str ''x'' \<and>
   applyMergeOperation refRuntime Null (Str ''x'') ''TAKE_OLD'' = Null \<and>
   \<not> isNullish (Str ''y'' :: jsnum jsval) \<and> isNullish (Undefined :: jsnum jsval) \<and>
   applyMergeOperation refRuntime (Str ''y'') Undefined ''CONCATENATE'' = Str ''y'' \<and>
   applyMergeOperation refRuntime (Str ''y'') Undefined ''TAKE_NEW'' = Undefined"
  using applyMergeOperation_null_precedence [where a = "Null :: jsnum jsval" and rt = refRuntime
          and b = "Str ''x''" and opr = "''SUM''"]
        applyMergeOperation_null_precedence [where a = "Null :: jsnum jsval" and rt = refRuntime
          and b = "Str ''x''" and opr = "''TAKE_OLD''"]
        applyMergeOperation_null_precedence [where a = "Str ''y'' :: jsnum jsval" and rt = refRuntime
          and b = Undefined and opr = "''CONCATENATE''"]
        applyMergeOperation_null_precedence [where a = "Str ''y'' :: jsnum jsval" and rt = refRuntime
          and b = Undefined and opr = "''TAKE_NEW''"]
  by (simp add: isNullish_def)

text \<open>
  Claim C6, as stated: \<open>applyMergeOperation(5, null, TAKE_NEW)\<close> and
  \<open>applyMergeOperation(null, 5, TAKE_OLD)\<close> are both 5. Neither is: the null checks
  return the null operand for these two operators.
\<close>

theorem take_new_take_old_null_counterexample:
  "applyMergeOperation refRuntime (Num (Fin 5)) Null ''TAKE_NEW'' \<noteq> Num (Fin 5) \<and>
   applyMergeOperation refRuntime Null (Num (Fin 5)) ''TAKE_OLD'' \<noteq> Num (Fin 5)"
  by (simp add: applyMergeOperation_def isNullish_def)

text \<open>
  Claim C6, amended. \<open>TAKE_OLD\<close> returns the first value and \<open>TAKE_NEW\<close> the second,
  whatever they are, null included.
\<close>

theorem take_new_take_old_select:
  "applyMergeOperation rt a b ''TAKE_OLD'' = a \<and> applyMergeOperation rt a b ''TAKE_NEW'' = b"
  by (simp add: applyMergeOperation_def)

theorem take_new_take_old_select_witness:
  "applyMergeOperation refRuntime (Num (Fin 5)) Null ''TAKE_NEW'' = Null \<and>
   applyMergeOperation refRuntime Null (Num (Fin 5)) ''TAKE_OLD'' = Null"
  using take_new_take_old_select [where rt = refRuntime and a = "Num (Fin 5)" and b = Null]
        take_new_take_old_select [where rt = refRuntime and a = Null and b = "Num (Fin 5)"]
  by simp

lemma commutes_when_numeric:
  assumes c: "commutativeArithmetic rt"
    and o: "opr \<in> {''SUM'', ''AVG'', ''MIN'', ''MAX''}"
    and a: "parsesAsNumber rt a" and b: "parsesAsNumber rt b"
  shows "applyMergeOperation rt a b opr = applyMergeOperation rt b a opr"
proof -
  have add: "\<And>x y. numAdd rt x y = numAdd rt y x"
    and mn: "\<And>x y. mathMin rt x y = mathMin rt y x"
    and mx: "\<And>x y. mathMax rt x y = mathMax rt y x"
    using c by (simp_all add: commutativeArithmetic_def)
  have na: "\<not> isNullish a" "\<not> isNaN rt (parseFloat rt (jsString rt a))"
    and nb: "\<not> isNullish b" "\<not> isNaN rt (parseFloat rt (jsString rt b))"
    using a b by (simp_all add: parsesAsNumber_def)
  from o consider "opr = ''SUM''" | "opr = ''AVG''" | "opr = ''MIN''" | "opr = ''MAX''"
    by blast
  then show ?thesis
  proof cases
    case 1
    then show ?thesis using na nb
      by (simp add: applyMergeOperation_def performNumericOperation_def Let_def add [of "parseFloat rt (jsString rt a)"])
  next
    case 2
    then show ?thesis using na nb
      by (simp add: applyMergeOperation_def performNumericOperation_def Let_def add [of "parseFloat rt (jsString rt a)"])
  next
    case 3
    then show ?thesis using na nb
      by (simp add: applyMergeOperation_def performNumericOperation_def Let_def mn [of "parseFloat rt (jsString rt a)"])
  next
    case 4
    then show ?thesis using na nb
      by (simp add: applyMergeOperation_def performNumericOperation_def Let_def mx [of "parseFloat rt (jsString rt a)"])
  qed
qed

lemma commutes_when_one_null:
  assumes o: "opr \<in> {''SUM'', ''AVG'', ''MIN'', ''MAX''}"
    and n: "isNullish a \<noteq> isNullish b"
  shows "applyMergeOperation rt a b opr = applyMergeOperation rt b a opr"
proof -
  from o have t: "opr \<noteq> ''TAKE_OLD''" "opr \<noteq> ''TAKE_NEW''" by auto
  show ?thesis using n t by (auto simp: applyMergeOperation_def)
qed
lemma refRuntime_commutative: "commutativeArithmetic refRuntime"
  unfolding commutativeArithmetic_def refRuntime_def
  apply simp
  apply (intro allI)
  subgoal for x y by (cases x; cases y) (simp_all add: add.commute min.commute max.commute)
  done

text \<open>
  Claim C7, as stated: \<open>SUM\<close> commutes for all values. It does not: an operand that does
  not parse as a number makes the operation return its first operand.
\<close>

theorem sum_not_commutative_counterexample:
  "applyMergeOperation refRuntime (Str ''abc'') (Str ''5'') ''SUM'' \<noteq>
   applyMergeOperation refRuntime (Str ''5'') (Str ''abc'') ''SUM''"
  by code_simp

text \<open>
  Claim C7, amended. On a runtime whose addition, minimum and maximum commute, \<open>SUM\<close>,
  \<open>AVG\<close>, \<open>MIN\<close> and \<open>MAX\<close> give the same result in both orders when both values parse as
  numbers, and when exactly one of them is null or absent. \<open>SUBTRACT\<close> and \<open>DIVIDE\<close> do
  not commute for some values.
\<close>

theorem numeric_operators_commute:
  "(commutativeArithmetic rt \<and> opr \<in> {''SUM'', ''AVG'', ''MIN'', ''MAX''} \<and>
      ((parsesAsNumber rt a \<and> parsesAsNumber rt b) \<or> isNullish a \<noteq> isNullish b) \<longrightarrow>
      applyMergeOperation rt a b opr = applyMergeOperation rt b a opr) \<and>
   (\<exists>x y. applyMergeOperation refRuntime x y ''SUBTRACT'' \<noteq> applyMergeOperation refRuntime y x ''SUBTRACT'') \<and>
   (\<exists>x y. applyMergeOperation refRuntime x y ''DIVIDE'' \<noteq> applyMergeOperation refRuntime y x ''DIVIDE'')"
proof (intro conjI impI)
  assume h: "commutativeArithmetic rt \<and> opr \<in> {''SUM'', ''AVG'', ''MIN'', ''MAX''} \<and>
      ((parsesAsNumber rt a \<and> parsesAsNumber rt b) \<or> isNullish a \<noteq> isNullish b)"
  then show "applyMergeOperation rt a b opr = applyMergeOperation rt b a opr"
    using commutes_when_numeric [of rt opr a b] commutes_when_one_null [of opr a b rt] by blast
next
  have "applyMergeOperation refRuntime (Num (Fin 1)) (Num (Fin 2)) ''SUBTRACT'' \<noteq>
        applyMergeOperation refRuntime (Num (Fin 2)) (Num (Fin 1)) ''SUBTRACT''"
    by code_simp
  then show "\<exists>x y. applyMergeOperation refRuntime x y ''SUBTRACT'' \<noteq> applyMergeOperation refRuntime y x ''SUBTRACT''"
    by blast
next
  have "applyMergeOperation refRuntime (Num (Fin 1)) (Num (Fin 2)) ''DIVIDE'' \<noteq>
        applyMergeOperation refRuntime (Num (Fin 2)) (Num (Fin 1)) ''DIVIDE''"
    by code_simp
  then show "\<exists>x y. applyMergeOperation refRuntime x y ''DIVIDE'' \<noteq> applyMergeOperation refRuntime y x ''DIVIDE''"
    by blast
qed

theorem numeric_operators_commute_witness:
  "commutativeArithmetic refRuntime \<and> ''AVG'' \<in> {''SUM'', ''AVG'', ''MIN'', ''MAX''} \<and>
   parsesAsNumber refRuntime (Str ''1.5'') \<and> parsesAsNumber refRuntime (Num (Fin 2)) \<and>
   applyMergeOperation refRuntime (Str ''1.5'') (Num (Fin 2)) ''AVG'' = Num (Fin (7 / 4)) \<and>
   applyMergeOperation refRuntime (Num (Fin 2)) (Str ''1.5'') ''AVG'' = Num (Fin (7 / 4))"
proof -
  have c: "commutativeArithmetic refRuntime" by (rule refRuntime_commutative)
  have p1: "parsesAsNumber refRuntime (Str ''1.5'')" by code_simp
  have p2: "parsesAsNumber refRuntime (Num (Fin 2))" by code_simp
  have v: "applyMergeOperation refRuntime (Str ''1.5'') (Num (Fin 2)) ''AVG'' = Num (Fin (7 / 4))"
    by code_simp
  have "applyMergeOperation refRuntime (Str ''1.5'') (Num (Fin 2)) ''AVG'' =
        applyMergeOperation refRuntime (Num (Fin 2)) (Str ''1.5'') ''AVG''"
    using numeric_operators_commute [where rt = refRuntime and opr = "''AVG''"
        and a = "Str ''1.5''" and b = "Num (Fin 2)"] c p1 p2 by simp
  with c p1 p2 v show ?thesis by simp
qed

section \<open>Properties of the match engine and of the pipeline\<close>

lemma findIndex_Some:
  "findIndex P xs = Some i \<Longrightarrow>
     i < length xs \<and> find P xs = Some (xs ! i) \<and> take i xs @ drop (Suc i) xs = removeFirst P xs"
proof (induction xs arbitrary: i)
  case Nil
  then show ?case by simp
next
  case (Cons x xs)
  then show ?case by (cases "P x") auto
qed

lemma findIndex_None: "findIndex P xs = None \<Longrightarrow> find P xs = None"
  by (induction xs) (auto split: if_splits)

lemma scanFile2_findIndex:
  "scanFile2 rt cm v w i =
     map_option (\<lambda>j. j + i)
       (findIndex (\<lambda>b. isValueMatch rt v (getColumnValue b (file2Column cm))) (drop i w))"
proof (induction rt cm v w i rule: scanFile2.induct)
  case (1 rt cm v w i)
  show ?case
  proof (cases "i < length w")
    case True
    then have d: "drop i w = w ! i # drop (Suc i) w" by (simp add: Cons_nth_drop_Suc)
    show ?thesis
    proof (cases "isValueMatch rt v (getColumnValue (w ! i) (file2Column cm))")
      case True
      with \<open>i < length w\<close> d show ?thesis by (subst scanFile2.simps) simp
    next
      case False
      with \<open>i < length w\<close> d 1 show ?thesis
        by (subst scanFile2.simps) (simp add: option.map_comp comp_def)
    qed
  next
    case False
    then show ?thesis by (subst scanFile2.simps) simp
  qed
qed

lemma scanFile2_0:
  "scanFile2 rt cm (getColumnValue a (file1Column cm)) w 0 = findIndex (keysMatch rt cm a) w"
proof -
  have "keysMatch rt cm a =
        (\<lambda>b. isValueMatch rt (getColumnValue a (file1Column cm)) (getColumnValue b (file2Column cm)))"
    by (rule ext) (simp add: keysMatch_def)
  then show ?thesis by (simp add: scanFile2_findIndex option.map_ident)
qed

lemma matchLoop_greedy:
  "matchLoop rt cm as (d, u1, u2) =
     (case greedyMatch (keysMatch rt cm) as u2 of (ps, ua, ub) \<Rightarrow> (d @ ps, u1 @ ua, ub))"
proof (induction as arbitrary: d u1 u2)
  case Nil
  then show ?case by simp
next
  case (Cons a as)
  show ?case
  proof (cases "findIndex (keysMatch rt cm a) u2")
    case None
    then show ?thesis
      using Cons [of d "u1 @ [a]" u2] findIndex_None [OF None]
      by (simp add: scanFile2_0 split: prod.splits)
  next
    case (Some i)
    then show ?thesis
      using Cons [of "d @ [\<lparr>file1Record = a, file2Record = u2 ! i\<rparr>]" u1 "removeFirst (keysMatch rt cm a) u2"]
        findIndex_Some [OF Some]
      by (simp add: scanFile2_0 splice1_def split: prod.splits)
  qed
qed

lemma findDuplicatesAndUnique_greedy:
  "findDuplicatesAndUnique rt f1 f2 cm = greedyMatch (keysMatch rt cm) (data f1) (data f2)"
  by (simp add: findDuplicatesAndUnique_def matchLoop_greedy split: prod.splits)

lemma removeFirst_mset: "find P xs = Some b \<Longrightarrow> mset (removeFirst P xs) + {#b#} = mset xs"
  by (induction xs) (auto split: if_splits)

lemma greedyMatch_mset:
  "greedyMatch m as bs = (ps, ua, ub) \<Longrightarrow>
     mset (map file1Record ps) + mset ua = mset as \<and> mset (map file2Record ps) + mset ub = mset bs"
proof (induction as arbitrary: bs ps ua ub)
  case Nil
  then show ?case by simp
next
  case (Cons a as)
  show ?case
  proof (cases "find (m a) bs")
    case None
    with Cons.prems obtain ps' ua' where g: "greedyMatch m as bs = (ps', ua', ub)" and e: "ps = ps'" "ua = a # ua'"
      by (auto split: prod.splits)
    from Cons.IH [OF g] e show ?thesis by simp
  next
    case (Some b)
    with Cons.prems obtain ps' where g: "greedyMatch m as (removeFirst (m a) bs) = (ps', ua, ub)"
      and e: "ps = \<lparr>file1Record = a, file2Record = b\<rparr> # ps'"
      by (auto split: prod.splits)
    from Cons.IH [OF g] e removeFirst_mset [OF Some] show ?thesis
      by (simp add: ac_simps)
  qed
qed

lemma greedyMatch_length:
  assumes "greedyMatch m as bs = (ps, ua, ub)"
  shows "length ps + length ua = length as \<and> length ps + length ub = length bs"
proof -
  from greedyMatch_mset [OF assms]
  have "size (mset (map file1Record ps) + mset ua) = size (mset as)"
    and "size (mset (map file2Record ps) + mset ub) = size (mset bs)" by simp_all
  then show ?thesis by simp
qed


lemma length_mergeDuplicateRecords [simp]:
  "length (mergeDuplicateRecords rt ref dups mo) = length dups"
  by (induction dups arbitrary: ref) simp_all

lemma length_replacePaired_fold:
  "length (fold (\<lambda>(dup, m) acc.
             (case findIndex (\<lambda>r. ident r = ident (file1Record dup)) acc of
                Some file1Index \<Rightarrow> acc[file1Index := m]
              | None \<Rightarrow> acc)) zs mrg) = length mrg"
  by (induction zs arbitrary: mrg) (auto split: option.splits)

lemma length_replacePaired [simp]: "length (replacePaired dups dm mrg) = length mrg"
  by (simp add: replacePaired_def length_replacePaired_fold)

lemma length_appendUnpaired:
  "length (fst (appendUnpaired dups rs (mrg, ref))) =
     length mrg + length (filter (\<lambda>r. \<not> list_ex (\<lambda>dup. ident (file2Record dup) = ident r) dups) rs)"
  by (induction rs arbitrary: mrg ref) simp_all

lemma unpaired_filter_length:
  assumes g: "mset (map file2Record ps) + mset ub = mset bs"
    and d: "distinct (map ident bs)"
  shows "length (filter (\<lambda>r. \<not> list_ex (\<lambda>dup. ident (file2Record dup) = ident r) ps) bs) = length ub"
proof -
  let ?Q = "\<lambda>r. \<not> list_ex (\<lambda>dup. ident (file2Record dup) = ident r) ps"
  from d have db: "distinct bs" and inj: "inj_on ident (set bs)"
    by (simp_all add: distinct_map)
  have paired_in: "file2Record dup \<in> set bs" if "dup \<in> set ps" for dup
  proof -
    from that have "file2Record dup \<in># mset (map file2Record ps) + mset ub" by simp
    with g show ?thesis by (metis set_mset_mset)
  qed
  have ub_in: "r \<in> set bs" if "r \<in> set ub" for r
  proof -
    from that have "r \<in># mset (map file2Record ps) + mset ub" by simp
    with g show ?thesis by (metis set_mset_mset)
  qed
  have ub_Q: "?Q r" if r: "r \<in> set ub" for r
  proof (rule ccontr)
    assume "\<not> ?Q r"
    then obtain dup where dp: "dup \<in> set ps" and e: "ident (file2Record dup) = ident r"
      by (auto simp: list_ex_iff)
    from inj paired_in [OF dp] ub_in [OF r] e have "file2Record dup = r"
      by (auto dest: inj_onD)
    with dp have c1: "count (mset (map file2Record ps)) r \<ge> 1"
      by (metis count_greater_eq_one_iff image_eqI list.set_map set_mset_mset)
    from r have c2: "count (mset ub) r \<ge> 1"
      by (metis count_greater_eq_one_iff set_mset_mset)
    from g have "count (mset bs) r = count (mset (map file2Record ps)) r + count (mset ub) r"
      by (metis count_union)
    with c1 c2 have "count (mset bs) r \<ge> 2" by linarith
    moreover from db have "count (mset bs) r \<le> 1"
      by (simp add: distinct_count_atmost_1)
    ultimately show False by linarith
  qed
  have p_nQ: "\<not> ?Q (file2Record dup)" if "dup \<in> set ps" for dup
    using that by (auto simp: list_ex_iff)
  have f1: "filter_mset ?Q (mset (map file2Record ps)) = {#}"
    using p_nQ by auto
  have f2: "filter_mset ?Q (mset ub) = mset ub"
    using ub_Q by (simp add: filter_mset_eq_conv)
  have "length (filter ?Q bs) = size (filter_mset ?Q (mset bs))"
    by (metis mset_filter size_mset)
  also have "\<dots> = size (filter_mset ?Q (mset (map file2Record ps)) + filter_mset ?Q (mset ub))"
    using g by (metis filter_union_mset)
  also have "\<dots> = length ub" using f1 f2 by simp
  finally show ?thesis .
qed

lemma validate_ok_processes:
  assumes "validateProcessingInputs f1 f2 cm mo = Inr u"
  shows "\<exists>res. processDuplicates rt now f1 f2 cm mo = Inr res"
  using assms by (simp add: processDuplicates_def Let_def split: prod.splits)

lemma processDuplicates_Inr:
  assumes "processDuplicates rt now f1 f2 cm mo = Inr res"
  shows "\<exists>ps ua ub mrg.
    greedyMatch (keysMatch rt cm) (data f1) (data f2) = (ps, ua, ub) \<and>
    res = \<lparr>duplicates = map file1Record ps, uniqueInFile1 = ua, uniqueInFile2 = ub, merged = mrg,
            stats = calculateStatistics f1 f2 ps ua ub mrg, processedAt = now\<rparr> \<and>
    (mergeAllOperation mo = None \<longrightarrow> mrg = mergeDuplicateRecords rt (firstFreeRef f1 f2) ps mo) \<and>
    (mergeAllOperation mo \<noteq> None \<longrightarrow>
       length mrg = length (data f1) +
         length (filter (\<lambda>r. \<not> list_ex (\<lambda>dup. ident (file2Record dup) = ident r) ps) (data f2)))"
proof -
  obtain ps ua ub where g: "greedyMatch (keysMatch rt cm) (data f1) (data f2) = (ps, ua, ub)"
    by (cases "greedyMatch (keysMatch rt cm) (data f1) (data f2)") auto
  show ?thesis
  proof (cases "mergeAllOperation mo")
    case None
    with assms g show ?thesis
      by (auto simp: processDuplicates_def findDuplicatesAndUnique_greedy Let_def split: sum.splits)
  next
    case (Some mop)
    obtain m0 ref where a: "appendUnpaired ps (data f2) (data f1, firstFreeRef f1 f2) = (m0, ref)"
      by (cases "appendUnpaired ps (data f2) (data f1, firstFreeRef f1 f2)") auto
    from length_appendUnpaired [of ps "data f2" "data f1" "firstFreeRef f1 f2"] a
    have l: "length m0 = length (data f1) +
         length (filter (\<lambda>r. \<not> list_ex (\<lambda>dup. ident (file2Record dup) = ident r) ps) (data f2))"
      by simp
    with assms g Some a show ?thesis
      by (auto simp: processDuplicates_def findDuplicatesAndUnique_greedy Let_def split: sum.splits)
  qed
qed

text \<open>
  Claim C3. For all datasets and every column mapping, the pairs and the records unique
  to file 1 add up to the records of file 1, and the pairs and the records unique to
  file 2 add up to the records of file 2; whenever \<open>processDuplicates\<close> returns, the
  same holds of the arrays and of the statistics of its result.
\<close>

theorem match_counts_add_up:
  "(case findDuplicatesAndUnique rt f1 f2 cm of
      (dups, u1, u2) \<Rightarrow>
        length dups + length u1 = length (data f1) \<and> length dups + length u2 = length (data f2)) \<and>
   (processDuplicates rt now f1 f2 cm mo = Inr res \<longrightarrow>
      length (duplicates res) + length (uniqueInFile1 res) = length (data f1) \<and>
      length (duplicates res) + length (uniqueInFile2 res) = length (data f2) \<and>
      duplicateCount (stats res) + uniqueFile1Count (stats res) = totalFile1 (stats res) \<and>
      duplicateCount (stats res) + uniqueFile2Count (stats res) = totalFile2 (stats res))"
proof (intro conjI impI)
  obtain ps ua ub where g: "greedyMatch (keysMatch rt cm) (data f1) (data f2) = (ps, ua, ub)"
    by (cases "greedyMatch (keysMatch rt cm) (data f1) (data f2)") auto
  from greedyMatch_length [OF g] g
  show "case findDuplicatesAndUnique rt f1 f2 cm of
      (dups, u1, u2) \<Rightarrow>
        length dups + length u1 = length (data f1) \<and> length dups + length u2 = length (data f2)"
    by (simp add: findDuplicatesAndUnique_greedy)
next
  assume r: "processDuplicates rt now f1 f2 cm mo = Inr res"
  from processDuplicates_Inr [OF r] obtain ps ua ub mrg where
    g: "greedyMatch (keysMatch rt cm) (data f1) (data f2) = (ps, ua, ub)" and
    e: "res = \<lparr>duplicates = map file1Record ps, uniqueInFile1 = ua, uniqueInFile2 = ub, merged = mrg,
            stats = calculateStatistics f1 f2 ps ua ub mrg, processedAt = now\<rparr>"
    by (elim exE conjE)
  from greedyMatch_length [OF g]
  have l: "length ps + length ua = length (data f1)" "length ps + length ub = length (data f2)"
    by simp_all
  from l e show "length (duplicates res) + length (uniqueInFile1 res) = length (data f1)" by simp
  from l e show "length (duplicates res) + length (uniqueInFile2 res) = length (data f2)" by simp
  from l(1) have "int (length ps) + int (length ua) = int (length (data f1))" by linarith
  with e show "duplicateCount (stats res) + uniqueFile1Count (stats res) = totalFile1 (stats res)"
    by (simp add: calculateStatistics_def)
  from l(2) have "int (length ps) + int (length ub) = int (length (data f2))" by linarith
  with e show "duplicateCount (stats res) + uniqueFile2Count (stats res) = totalFile2 (stats res)"
    by (simp add: calculateStatistics_def)
qed

theorem match_counts_add_up_witness:
  "processDuplicates refRuntime 0 fileA fileB idMapping sumQty =
     Inr (projr (processDuplicates refRuntime 0 fileA fileB idMapping sumQty)) \<and>
   stats (projr (processDuplicates refRuntime 0 fileA fileB idMapping sumQty)) =
     \<lparr>totalFile1 = 2, totalFile2 = 2, duplicateCount = 1, uniqueFile1Count = 1,
      uniqueFile2Count = 1, mergedCount = 1\<rparr> \<and>
   length (duplicates (projr (processDuplicates refRuntime 0 fileA fileB idMapping sumQty))) +
   length (uniqueInFile1 (projr (processDuplicates refRuntime 0 fileA fileB idMapping sumQty))) =
     length (data fileA) \<and>
   length (duplicates (projr (processDuplicates refRuntime 0 fileA fileB idMapping sumQty))) +
   length (uniqueInFile2 (projr (processDuplicates refRuntime 0 fileA fileB idMapping sumQty))) =
     length (data fileB)"
proof -
  have i: "\<not> isl (processDuplicates refRuntime 0 fileA fileB idMapping sumQty)"
    by code_simp
  then have e: "processDuplicates refRuntime 0 fileA fileB idMapping sumQty =
     Inr (projr (processDuplicates refRuntime 0 fileA fileB idMapping sumQty))"
    by (cases "processDuplicates refRuntime 0 fileA fileB idMapping sumQty") simp_all
  have s: "stats (projr (processDuplicates refRuntime 0 fileA fileB idMapping sumQty)) =
     \<lparr>totalFile1 = 2, totalFile2 = 2, duplicateCount = 1, uniqueFile1Count = 1,
      uniqueFile2Count = 1, mergedCount = 1\<rparr>"
    by code_simp
  from match_counts_add_up [where rt = refRuntime and now = 0 and ?f1.0 = fileA and ?f2.0 = fileB
      and cm = idMapping and mo = sumQty
      and res = "projr (processDuplicates refRuntime 0 fileA fileB idMapping sumQty)"] e s
  show ?thesis by blast
qed

text \<open>
  Claim C4. The loops of \<open>findDuplicatesAndUnique\<close> compute the greedy, first-match,
  one-to-one policy: the records of A in order, each paired with the first remaining
  record of B whose key matches, which then leaves the working copy, and a record of A
  without a match unique to A. In particular two records of A and one record of B with
  the same key give one pair and one record unique to A.
\<close>

theorem greedy_first_match:
  "findDuplicatesAndUnique rt f1 f2 cm = greedyMatch (keysMatch rt cm) (data f1) (data f2) \<and>
   (data f1 = [a1, a2] \<and> data f2 = [b] \<and> keysMatch rt cm a1 b \<and> keysMatch rt cm a2 b \<longrightarrow>
      findDuplicatesAndUnique rt f1 f2 cm = ([\<lparr>file1Record = a1, file2Record = b\<rparr>], [a2], []))"
  by (simp add: findDuplicatesAndUnique_greedy)

theorem greedy_first_match_witness:
  "data fileA = [rowA1, rowA2] \<and> data fileBX = [rowB1] \<and>
   keysMatch refRuntime idMapping rowA1 rowB1 \<and> keysMatch refRuntime idMapping rowA2 rowB1 \<and>
   findDuplicatesAndUnique refRuntime fileA fileBX idMapping =
     ([\<lparr>file1Record = rowA1, file2Record = rowB1\<rparr>], [rowA2], [])"
proof -
  have d: "data fileA = [rowA1, rowA2]" "data fileBX = [rowB1]"
    by (simp_all add: fileA_def fileBX_def mkFile_def)
  have k: "keysMatch refRuntime idMapping rowA1 rowB1" "keysMatch refRuntime idMapping rowA2 rowB1"
    by code_simp+
  from greedy_first_match [where rt = refRuntime and ?f1.0 = fileA and ?f2.0 = fileBX
      and cm = idMapping and ?a1.0 = rowA1 and ?a2.0 = rowA2 and b = rowB1] d k
  show ?thesis by blast
qed

text \<open>
  Claim C1, as stated: \<open>mergedCount\<close> equals \<open>duplicateCount\<close> in merge-all mode too.
  On the example files merge-all mode returns three merged records for one pair.
\<close>

theorem merged_count_merge_all_counterexample:
  "validateProcessingInputs fileA fileB idMapping mergeAll = Inr () \<and>
   processDuplicates refRuntime 0 fileA fileB idMapping mergeAll =
     Inr (projr (processDuplicates refRuntime 0 fileA fileB idMapping mergeAll)) \<and>
   mergedCount (stats (projr (processDuplicates refRuntime 0 fileA fileB idMapping mergeAll))) = 3 \<and>
   duplicateCount (stats (projr (processDuplicates refRuntime 0 fileA fileB idMapping mergeAll))) = 1 \<and>
   mergedCount (stats (projr (processDuplicates refRuntime 0 fileA fileB idMapping mergeAll))) \<noteq>
   duplicateCount (stats (projr (processDuplicates refRuntime 0 fileA fileB idMapping mergeAll)))"
proof -
  have v: "validateProcessingInputs fileA fileB idMapping mergeAll = Inr ()" by code_simp
  have "\<not> isl (processDuplicates refRuntime 0 fileA fileB idMapping mergeAll)"
    by code_simp
  then have e: "processDuplicates refRuntime 0 fileA fileB idMapping mergeAll =
     Inr (projr (processDuplicates refRuntime 0 fileA fileB idMapping mergeAll))"
    by (cases "processDuplicates refRuntime 0 fileA fileB idMapping mergeAll") simp_all
  have m: "mergedCount (stats (projr (processDuplicates refRuntime 0 fileA fileB idMapping mergeAll))) = 3"
    by code_simp
  have d: "duplicateCount (stats (projr (processDuplicates refRuntime 0 fileA fileB idMapping mergeAll))) = 1"
    by code_simp
  from v e m d show ?thesis by simp
qed

text \<open>
  Claim C1, amended. Every accepted input gives a result, whose \<open>mergedCount\<close> is the
  length of \<open>merged\<close>. In column-operation mode \<open>mergedCount\<close> equals
  \<open>duplicateCount\<close>. In merge-all mode \<open>mergedCount\<close> is at least \<open>totalFile1\<close>, and
  equals \<open>totalFile1 + uniqueFile2Count\<close> when the rows of file 2 are pairwise distinct
  objects.
\<close>

theorem merged_count_by_mode:
  assumes v: "validateProcessingInputs f1 f2 cm mo = Inr ()"
  shows "\<exists>res. processDuplicates rt now f1 f2 cm mo = Inr res \<and>
     mergedCount (stats res) = int (length (merged res)) \<and>
     (mergeAllOperation mo = None \<longrightarrow> mergedCount (stats res) = duplicateCount (stats res)) \<and>
     (mergeAllOperation mo \<noteq> None \<longrightarrow>
        totalFile1 (stats res) \<le> mergedCount (stats res) \<and>
        (distinct (map ident (data f2)) \<longrightarrow>
           mergedCount (stats res) = totalFile1 (stats res) + uniqueFile2Count (stats res)))"
proof -
  from validate_ok_processes [OF v] obtain res where r: "processDuplicates rt now f1 f2 cm mo = Inr res"
    by blast
  from processDuplicates_Inr [OF r] obtain ps ua ub mrg where
    g: "greedyMatch (keysMatch rt cm) (data f1) (data f2) = (ps, ua, ub)" and
    e: "res = \<lparr>duplicates = map file1Record ps, uniqueInFile1 = ua, uniqueInFile2 = ub, merged = mrg,
            stats = calculateStatistics f1 f2 ps ua ub mrg, processedAt = now\<rparr>" and
    c: "mergeAllOperation mo = None \<longrightarrow> mrg = mergeDuplicateRecords rt (firstFreeRef f1 f2) ps mo" and
    a: "mergeAllOperation mo \<noteq> None \<longrightarrow>
       length mrg = length (data f1) +
         length (filter (\<lambda>r. \<not> list_ex (\<lambda>dup. ident (file2Record dup) = ident r) ps) (data f2))"
    by (elim exE conjE)
  have 1: "mergedCount (stats res) = duplicateCount (stats res)" if "mergeAllOperation mo = None"
    using c that e by (simp add: calculateStatistics_def)
  have 2: "totalFile1 (stats res) \<le> mergedCount (stats res)" if "mergeAllOperation mo \<noteq> None"
    using a that e by (simp add: calculateStatistics_def)
  have 3: "mergedCount (stats res) = totalFile1 (stats res) + uniqueFile2Count (stats res)"
    if m: "mergeAllOperation mo \<noteq> None" and d: "distinct (map ident (data f2))"
  proof -
    from greedyMatch_mset [OF g] have "mset (map file2Record ps) + mset ub = mset (data f2)" by simp
    from unpaired_filter_length [OF this d] a m
    have "length mrg = length (data f1) + length ub" by simp
    with e show ?thesis by (simp add: calculateStatistics_def)
  qed
  have 0: "mergedCount (stats res) = int (length (merged res))"
    using e by (simp add: calculateStatistics_def)
  show ?thesis
  proof (intro exI [of _ res] conjI impI)
    show "processDuplicates rt now f1 f2 cm mo = Inr res" by (rule r)
  next
    show "mergedCount (stats res) = int (length (merged res))" by (rule 0)
  next
    assume "mergeAllOperation mo = None"
    then show "mergedCount (stats res) = duplicateCount (stats res)" by (rule 1)
  next
    assume "mergeAllOperation mo \<noteq> None"
    then show "totalFile1 (stats res) \<le> mergedCount (stats res)" by (rule 2)
  next
    assume "mergeAllOperation mo \<noteq> None" "distinct (map ident (data f2))"
    then show "mergedCount (stats res) = totalFile1 (stats res) + uniqueFile2Count (stats res)"
      by (rule 3)
  qed
qed

theorem merged_count_by_mode_witness:
  "validateProcessingInputs fileA fileB idMapping sumQty = Inr () \<and>
   mergeAllOperation sumQty = None \<and>
   mergedCount (stats (projr (processDuplicates refRuntime 0 fileA fileB idMapping sumQty))) = 1 \<and>
   duplicateCount (stats (projr (processDuplicates refRuntime 0 fileA fileB idMapping sumQty))) = 1 \<and>
   validateProcessingInputs fileA fileB idMapping mergeAll = Inr () \<and>
   mergeAllOperation mergeAll \<noteq> None \<and> distinct (map ident (data fileB)) \<and>
   mergedCount (stats (projr (processDuplicates refRuntime 0 fileA fileB idMapping mergeAll))) = 3 \<and>
   totalFile1 (stats (projr (processDuplicates refRuntime 0 fileA fileB idMapping mergeAll))) = 2 \<and>
   uniqueFile2Count (stats (projr (processDuplicates refRuntime 0 fileA fileB idMapping mergeAll))) = 1"
proof -
  have v1: "validateProcessingInputs fileA fileB idMapping sumQty = Inr ()" by code_simp
  have v2: "validateProcessingInputs fileA fileB idMapping mergeAll = Inr ()" by code_simp
  have m1: "mergeAllOperation sumQty = None" by code_simp
  have m2: "mergeAllOperation mergeAll \<noteq> None" by code_simp
  have d: "distinct (map ident (data fileB))" by code_simp
  have s1: "duplicateCount (stats (projr (processDuplicates refRuntime 0 fileA fileB idMapping sumQty))) = 1"
    by code_simp
  have s2: "totalFile1 (stats (projr (processDuplicates refRuntime 0 fileA fileB idMapping mergeAll))) = 2"
    "uniqueFile2Count (stats (projr (processDuplicates refRuntime 0 fileA fileB idMapping mergeAll))) = 1"
    by code_simp+
  from merged_count_by_mode [OF v1, of refRuntime 0] m1 s1
  have c1: "mergedCount (stats (projr (processDuplicates refRuntime 0 fileA fileB idMapping sumQty))) = 1"
    by auto
  from merged_count_by_mode [OF v2, of refRuntime 0] m2 d s2
  have c2: "mergedCount (stats (projr (processDuplicates refRuntime 0 fileA fileB idMapping mergeAll))) = 3"
    by auto
  from v1 v2 m1 m2 d s1 s2 c1 c2 show ?thesis by simp
qed

section \<open>Frame of the column-operation mode\<close>

lemma getProp_setProp: "getProp (setProp k v m) c = (if c = k then v else getProp m c)"
  by (simp add: getProp_def setProp_def update_conv')

lemma hasKey_setProp: "hasKey c (setProp k v m) = (c = k \<or> hasKey c m)"
  by (auto simp: hasKey_def setProp_def dom_update)

lemma keys_setProp:
  "map fst (setProp k v m) = (if k \<in> set (map fst m) then map fst m else map fst m @ [k])"
  by (simp add: setProp_def update_keys)

lemma applyOperations_getProp:
  "c \<notin> column ` set ops \<Longrightarrow> getProp (applyOperations rt r1 r2 ops m) c = getProp m c"
  by (induction ops arbitrary: m) (simp_all add: getProp_setProp)

lemma applyOperations_hasKey:
  "c \<notin> column ` set ops \<Longrightarrow> hasKey c (applyOperations rt r1 r2 ops m) = hasKey c m"
  by (induction ops arbitrary: m) (simp_all add: hasKey_setProp)

lemma key_set_setProp: "fst ` set (setProp k v m) = insert k (fst ` set m)"
  by (simp add: setProp_def dom_update)

lemma applyOperations_key_set:
  "\<forall>opn \<in> set ops. operation opn \<noteq> ''MERGE_ALL'' \<Longrightarrow>
     fst ` set (applyOperations rt r1 r2 ops m) = fst ` set m \<union> column ` set ops"
proof (induction ops arbitrary: m)
  case Nil
  then show ?case by simp
next
  case (Cons opn ops)
  then show ?case by (simp add: key_set_setProp)
qed

lemma applyOperations_key_list:
  "column ` set ops \<subseteq> set (map fst m) \<Longrightarrow> map fst (applyOperations rt r1 r2 ops m) = map fst m"
proof (induction ops arbitrary: m)
  case Nil
  then show ?case by simp
next
  case (Cons opn ops)
  from Cons.prems have k: "column opn \<in> set (map fst m)" and r: "column ` set ops \<subseteq> set (map fst m)"
    by auto
  show ?case
  proof (cases "operation opn = ''MERGE_ALL''")
    case True
    with Cons.IH [OF r] show ?thesis by simp
  next
    case False
    let ?m' = "setProp (column opn)
                (applyMergeOperation rt (getProp (props r1) (column opn))
                   (getProp (props r2) (column opn)) (operation opn)) m"
    from k have e: "map fst ?m' = map fst m" by (simp add: keys_setProp)
    with r have "column ` set ops \<subseteq> set (map fst ?m')" by simp
    from Cons.IH [OF this] e False show ?thesis by simp
  qed
qed

lemma mergeAllOperation_None:
  "mergeAllOperation mo = None \<longleftrightarrow> (\<forall>opn \<in> set (operations mo). operation opn \<noteq> ''MERGE_ALL'')"
  by (auto simp: mergeAllOperation_def find_None_iff)

lemma nth_mergeDuplicateRecords:
  "i < length dups \<Longrightarrow> mergeDuplicateRecords rt ref dups mo ! i = mergePair rt mo (ref + i) (dups ! i)"
proof (induction dups arbitrary: ref i)
  case Nil
  then show ?case by simp
next
  case (Cons p ps)
  then show ?case by (cases i) simp_all
qed

lemma mergePair_column_mode:
  assumes n: "mergeAllOperation mo = None"
  shows "(\<forall>c. c \<notin> column ` set (operations mo) \<longrightarrow>
            getProp (props (mergePair rt mo ref p)) c = getProp (props (file1Record p)) c \<and>
            hasKey c (props (mergePair rt mo ref p)) = hasKey c (props (file1Record p))) \<and>
         set (keys (mergePair rt mo ref p)) = set (keys (file1Record p)) \<union> column ` set (operations mo) \<and>
         (column ` set (operations mo) \<subseteq> set (keys (file1Record p)) \<longrightarrow>
            keys (mergePair rt mo ref p) = keys (file1Record p))"
proof -
  from n have na: "\<forall>opn \<in> set (operations mo). operation opn \<noteq> ''MERGE_ALL''"
    by (simp add: mergeAllOperation_None)
  have p: "props (mergePair rt mo ref p) =
           applyOperations rt (file1Record p) (file2Record p) (operations mo) (props (file1Record p))"
    using n by (simp add: mergePair_def)
  have s: "set (keys (mergePair rt mo ref p)) = set (keys (file1Record p)) \<union> column ` set (operations mo)"
    unfolding keys_def p using applyOperations_key_set [OF na] by simp
  have l: "keys (mergePair rt mo ref p) = keys (file1Record p)"
    if "column ` set (operations mo) \<subseteq> set (keys (file1Record p))"
    unfolding keys_def p using that by (intro applyOperations_key_list) (simp add: keys_def)
  have f: "getProp (props (mergePair rt mo ref p)) c = getProp (props (file1Record p)) c \<and>
            hasKey c (props (mergePair rt mo ref p)) = hasKey c (props (file1Record p))"
    if "c \<notin> column ` set (operations mo)" for c
    unfolding p using that by (simp add: applyOperations_getProp applyOperations_hasKey)
  from s l f show ?thesis by blast
qed

text \<open>
  Claim C8, as stated: in column-operation mode the column set of a merged record is
  exactly that of \<open>recordA\<close>. An operation on a column that only file 2 has passes the
  validation and adds that column to the merged record.
\<close>

theorem column_set_grows_counterexample:
  "validateProcessingInputs fileA fileB idMapping takeNote = Inr () \<and>
   processDuplicates refRuntime 0 fileA fileB idMapping takeNote =
     Inr (projr (processDuplicates refRuntime 0 fileA fileB idMapping takeNote)) \<and>
   mergeAllOperation takeNote = None \<and>
   map keys (duplicates (projr (processDuplicates refRuntime 0 fileA fileB idMapping takeNote))) =
     [[''id'', ''qty'']] \<and>
   map keys (merged (projr (processDuplicates refRuntime 0 fileA fileB idMapping takeNote))) =
     [[''id'', ''qty'', ''note'']] \<and>
   set (keys (merged (projr (processDuplicates refRuntime 0 fileA fileB idMapping takeNote)) ! 0)) \<noteq>
   set (keys (duplicates (projr (processDuplicates refRuntime 0 fileA fileB idMapping takeNote)) ! 0))"
proof -
  let ?res = "projr (processDuplicates refRuntime 0 fileA fileB idMapping takeNote)"
  have v: "validateProcessingInputs fileA fileB idMapping takeNote = Inr ()" by code_simp
  have "\<not> isl (processDuplicates refRuntime 0 fileA fileB idMapping takeNote)" by code_simp
  then have e: "processDuplicates refRuntime 0 fileA fileB idMapping takeNote = Inr ?res"
    by (cases "processDuplicates refRuntime 0 fileA fileB idMapping takeNote") simp_all
  have n: "mergeAllOperation takeNote = None" by code_simp
  have d: "map keys (duplicates ?res) = [[''id'', ''qty'']]" by code_simp
  have m: "map keys (merged ?res) = [[''id'', ''qty'', ''note'']]" by code_simp
  have k: "set (keys (merged ?res ! 0)) \<noteq> set (keys (duplicates ?res ! 0))" by code_simp
  from v e n d m k show ?thesis by simp
qed

text \<open>
  Claim C8, amended. In column-operation mode there is one merged record per pair; it
  keeps the value of \<open>recordA\<close>, and its presence or absence, in every column that no
  operation names; its column set is that of \<open>recordA\<close> together with the columns
  that the operations name, so it is exactly that of \<open>recordA\<close>, in the same order,
  when every operation names a column of \<open>recordA\<close>.
\<close>

theorem column_mode_frame:
  "processDuplicates rt now f1 f2 cm mo = Inr res \<and> mergeAllOperation mo = None \<and>
   i < length (duplicates res) \<longrightarrow>
     length (merged res) = length (duplicates res) \<and>
     (\<forall>c. c \<notin> column ` set (operations mo) \<longrightarrow>
        getProp (props (merged res ! i)) c = getProp (props (duplicates res ! i)) c \<and>
        hasKey c (props (merged res ! i)) = hasKey c (props (duplicates res ! i))) \<and>
     set (keys (merged res ! i)) = set (keys (duplicates res ! i)) \<union> column ` set (operations mo) \<and>
     (column ` set (operations mo) \<subseteq> set (keys (duplicates res ! i)) \<longrightarrow>
        keys (merged res ! i) = keys (duplicates res ! i))"
proof (intro impI, elim conjE)
  assume r: "processDuplicates rt now f1 f2 cm mo = Inr res"
    and n: "mergeAllOperation mo = None" and i: "i < length (duplicates res)"
  from processDuplicates_Inr [OF r] obtain ps ua ub mrg where
    e: "res = \<lparr>duplicates = map file1Record ps, uniqueInFile1 = ua, uniqueInFile2 = ub, merged = mrg,
            stats = calculateStatistics f1 f2 ps ua ub mrg, processedAt = now\<rparr>" and
    c: "mergeAllOperation mo = None \<longrightarrow> mrg = mergeDuplicateRecords rt (firstFreeRef f1 f2) ps mo"
    by (elim exE conjE)
  from c n have m: "merged res = mergeDuplicateRecords rt (firstFreeRef f1 f2) ps mo"
    by (simp add: e)
  have d: "duplicates res = map file1Record ps" by (simp add: e)
  from i d have ip: "i < length ps" by simp
  have mi: "merged res ! i = mergePair rt mo (firstFreeRef f1 f2 + i) (ps ! i)"
    using ip by (simp add: m nth_mergeDuplicateRecords)
  have di: "duplicates res ! i = file1Record (ps ! i)"
    using ip by (simp add: d)
  have l: "length (merged res) = length (duplicates res)" by (simp add: m d)
  from mergePair_column_mode [OF n, of rt "firstFreeRef f1 f2 + i" "ps ! i"] l
  show "length (merged res) = length (duplicates res) \<and>
     (\<forall>c. c \<notin> column ` set (operations mo) \<longrightarrow>
        getProp (props (merged res ! i)) c = getProp (props (duplicates res ! i)) c \<and>
        hasKey c (props (merged res ! i)) = hasKey c (props (duplicates res ! i))) \<and>
     set (keys (merged res ! i)) = set (keys (duplicates res ! i)) \<union> column ` set (operations mo) \<and>
     (column ` set (operations mo) \<subseteq> set (keys (duplicates res ! i)) \<longrightarrow>
        keys (merged res ! i) = keys (duplicates res ! i))"
    unfolding mi di by simp
qed

theorem column_mode_frame_witness:
  "processDuplicates refRuntime 0 fileA fileB idMapping sumQty =
     Inr (projr (processDuplicates refRuntime 0 fileA fileB idMapping sumQty)) \<and>
   mergeAllOperation sumQty = None \<and>
   (0::nat) < length (duplicates (projr (processDuplicates refRuntime 0 fileA fileB idMapping sumQty))) \<and>
   ''id'' \<notin> column ` set (operations sumQty) \<and>
   column ` set (operations sumQty) \<subseteq>
     set (keys (duplicates (projr (processDuplicates refRuntime 0 fileA fileB idMapping sumQty)) ! 0)) \<and>
   getProp (props (merged (projr (processDuplicates refRuntime 0 fileA fileB idMapping sumQty)) ! 0)) ''id'' =
   getProp (props (duplicates (projr (processDuplicates refRuntime 0 fileA fileB idMapping sumQty)) ! 0)) ''id'' \<and>
   keys (merged (projr (processDuplicates refRuntime 0 fileA fileB idMapping sumQty)) ! 0) =
   keys (duplicates (projr (processDuplicates refRuntime 0 fileA fileB idMapping sumQty)) ! 0)"
proof -
  let ?res = "projr (processDuplicates refRuntime 0 fileA fileB idMapping sumQty)"
  have "\<not> isl (processDuplicates refRuntime 0 fileA fileB idMapping sumQty)" by code_simp
  then have e: "processDuplicates refRuntime 0 fileA fileB idMapping sumQty = Inr ?res"
    by (cases "processDuplicates refRuntime 0 fileA fileB idMapping sumQty") simp_all
  have n: "mergeAllOperation sumQty = None" by code_simp
  have l: "(0::nat) < length (duplicates ?res)" by code_simp
  have c: "''id'' \<notin> column ` set (operations sumQty)" by (simp add: sumQty_def)
  have k: "keys (duplicates ?res ! 0) = [''id'', ''qty'']" by code_simp
  have s: "column ` set (operations sumQty) \<subseteq> set (keys (duplicates ?res ! 0))"
    unfolding k by (simp add: sumQty_def)
  from column_mode_frame [where rt = refRuntime and now = 0 and ?f1.0 = fileA and ?f2.0 = fileB
      and cm = idMapping and mo = sumQty and res = ?res and i = 0] e n l c s
  show ?thesis by blast
qed

section \<open>Properties of the result validator\<close>

lemma lengthOf_present: "a \<noteq> NullOrUndefined \<Longrightarrow> lengthOf a = Inr (lengthProperty a)"
  by (cases a) simp_all

lemma validateResults_present:
  assumes "arraysPresent r"
  shows "validateResults (Some r) = Inr \<lparr>valid = (failedChecks r = []), errors = failedChecks r\<rparr>"
proof (cases "stats r")
  case None
  then show ?thesis by (simp add: validateResults_def failedChecks_def Let_def)
next
  case (Some st)
  from assms have l: "lengthOf (duplicates r) = Inr (lengthProperty (duplicates r))"
    "lengthOf (uniqueInFile1 r) = Inr (lengthProperty (uniqueInFile1 r))"
    "lengthOf (uniqueInFile2 r) = Inr (lengthProperty (uniqueInFile2 r))"
    "lengthOf (merged r) = Inr (lengthProperty (merged r))"
    by (simp_all add: arraysPresent_def lengthOf_present)
  have c: "(Some x \<noteq> y) = (y \<noteq> Some x)" for x :: int and y by auto
  show ?thesis
    unfolding validateResults_def failedChecks_def Let_def
    by (simp only: Some l option.case sum.case c) simp
qed


lemma message_absent: "((if c then [] else [m]) = []) = c"
  by simp

lemma failedChecks_empty: "failedChecks r = [] \<longleftrightarrow> checksPass r"
proof (cases "stats r")
  case None
  then show ?thesis by (simp add: failedChecks_def checksPass_def)
next
  case (Some st)
  then show ?thesis
    unfolding failedChecks_def checksPass_def
    by (simp only: append_is_Nil_conv option.case message_absent conj_assoc)
qed

lemma validateResults_typed:
  "validateResults (Some (asRuntimeValue p)) =
     Inr \<lparr>valid = checksPass (asRuntimeValue p), errors = failedChecks (asRuntimeValue p)\<rparr>"
proof -
  have "arraysPresent (asRuntimeValue p)" by (simp add: arraysPresent_def asRuntimeValue_def)
  then show ?thesis
    using validateResults_present [of "asRuntimeValue p"] by (simp add: failedChecks_empty)
qed

text \<open>
  Outside the declared type: when the \<open>duplicates\<close> field is \<open>undefined\<close> and the
  statistics are there, the read of \<open>results.duplicates.length\<close> throws. No value of the
  type \<open>ProcessedData\<close> has such a field, and the pipeline passes none.
\<close>

lemma validateResults_undefined_field:
  "\<not> isArray (duplicates undefinedDuplicates) \<and>
   validateResults (Some undefinedDuplicates) = Inl TypeError"
  by code_simp

lemma validateResults_pipeline:
  assumes "processDuplicates rt now f1 f2 cm mo = Inr res"
  shows "validateResults (Some (asRuntimeValue res)) = Inr \<lparr>valid = True, errors = []\<rparr>"
proof -
  from processDuplicates_Inr [OF assms] obtain ps ua ub mrg where
    g: "greedyMatch (keysMatch rt cm) (data f1) (data f2) = (ps, ua, ub)" and
    e: "res = \<lparr>duplicates = map file1Record ps, uniqueInFile1 = ua, uniqueInFile2 = ub, merged = mrg,
            stats = calculateStatistics f1 f2 ps ua ub mrg, processedAt = now\<rparr>" and
    c: "mergeAllOperation mo = None \<longrightarrow> mrg = mergeDuplicateRecords rt (firstFreeRef f1 f2) ps mo" and
    a: "mergeAllOperation mo \<noteq> None \<longrightarrow>
       length mrg = length (data f1) +
         length (filter (\<lambda>r. \<not> list_ex (\<lambda>dup. ident (file2Record dup) = ident r) ps) (data f2))"
    by (elim exE conjE)
  from greedyMatch_length [OF g]
  have l: "int (length ps) + int (length ua) = int (length (data f1))"
    "int (length ps) + int (length ub) = int (length (data f2))"
    by linarith+
  have "checksPass (asRuntimeValue res)"
    using l by (simp add: checksPass_def asRuntimeValue_def e calculateStatistics_def)
  then show ?thesis
    using validateResults_typed [of res] by (simp add: failedChecks_empty)
qed



section \<open>Properties of the session store\<close>

lemma sessions_clearTimeout [simp]: "sessions (clearTimeout h st) = sessions st"
  by (simp add: clearTimeout_def)

lemma sessions_scheduleSessionCleanup [simp]:
  "sessions (scheduleSessionCleanup now sid st) = sessions st"
  by (simp add: scheduleSessionCleanup_def setTimeout_def Let_def split: option.splits)

lemma timers_scheduleSessionCleanup:
  "\<exists>ts h. timers (scheduleSessionCleanup now sid st) =
            ts @ [\<lparr>handle = h, timerSession = sid, due = now + SESSION_TIMEOUT\<rparr>]"
  by (simp add: scheduleSessionCleanup_def setTimeout_def Let_def clearTimeout_def split: option.splits)

lemma sessions_deleteSession:
  "sessions (snd (deleteSession sid st)) = (sessions st)(sid := None)"
  by (auto simp: deleteSession_def Let_def clearTimeout_def split: option.splits)

lemma sessions_cleanupCallback:
  "sessions (cleanupCallback now sid st) =
     (case sessions st sid of
        None \<Rightarrow> sessions st
      | Some s \<Rightarrow>
          if now - lastActivity s \<ge> SESSION_TIMEOUT then (sessions st)(sid := None) else sessions st)"
  by (simp add: cleanupCallback_def Let_def sessions_deleteSession split: option.splits)

lemma timers_cleanupCallback_fresh:
  assumes "sessions st sid = Some s" and "now - lastActivity s < SESSION_TIMEOUT"
  shows "\<exists>ts h. timers (cleanupCallback now sid st) =
            ts @ [\<lparr>handle = h, timerSession = sid, due = now + SESSION_TIMEOUT\<rparr>]"
  using assms timers_scheduleSessionCleanup [of now sid st]
  by (simp add: cleanupCallback_def Let_def)

lemma fireTimer_cases:
  "fireTimer now h st = st \<or>
   (\<exists>t. t \<in> set (timers st) \<and> handle t = h \<and> due t \<le> now \<and>
        fireTimer now h st =
          cleanupCallback now (timerSession t) (st\<lparr>timers := filter (\<lambda>t. handle t \<noteq> h) (timers st)\<rparr>))"
proof (cases "find (\<lambda>t. handle t = h) (timers st)")
  case None
  then show ?thesis by (simp add: fireTimer_def)
next
  case (Some t)
  then have "t \<in> set (timers st) \<and> handle t = h"
    by (auto simp: find_Some_iff)
  with Some show ?thesis by (cases "now < due t") (auto simp: fireTimer_def)
qed

lemma fireTimer_keeps_fresh:
  assumes s: "sessions st sid = Some s" and f: "now - lastActivity s < SESSION_TIMEOUT"
  shows "sessions (fireTimer now h st) sid = Some s"
proof -
  from fireTimer_cases [of now h st] show ?thesis
  proof
    assume "fireTimer now h st = st"
    with s show ?thesis by simp
  next
    assume "\<exists>t. t \<in> set (timers st) \<and> handle t = h \<and> due t \<le> now \<and>
        fireTimer now h st =
          cleanupCallback now (timerSession t) (st\<lparr>timers := filter (\<lambda>t. handle t \<noteq> h) (timers st)\<rparr>)"
    then obtain t where "t \<in> set (timers st)" and "handle t = h" and "due t \<le> now"
      and e: "fireTimer now h st =
          cleanupCallback now (timerSession t) (st\<lparr>timers := filter (\<lambda>t. handle t \<noteq> h) (timers st)\<rparr>)"
      by (elim exE conjE)
    show ?thesis
      unfolding e sessions_cleanupCallback using s f
      by (auto split: option.splits)
  qed
qed

lemma updateSession_present:
  assumes "sessions st sid = Some s"
  shows "fst (updateSession now sid u st) = True \<and>
     (\<exists>s'. sessions (snd (updateSession now sid u st)) sid = Some s' \<and>
           lastActivity s' = (case updLastActivity u of Some t \<Rightarrow> t | None \<Rightarrow> now))"
  using assms by (simp add: updateSession_def Let_def)


lemma getSession_expired:
  assumes "sessions st sid = Some s" and "now - lastActivity s > SESSION_TIMEOUT"
  shows "fst (getSession now sid st) = None \<and> sessions (snd (getSession now sid st)) sid = None"
  using assms by (simp add: getSession_def sessions_deleteSession)

lemma getSession_fresh:
  assumes "sessions st sid = Some s" and "\<not> now - lastActivity s > SESSION_TIMEOUT"
  shows "fst (getSession now sid st) = Some (s\<lparr>lastActivity := now\<rparr>)"
  using assms by (simp add: getSession_def Let_def)

text \<open>
  Claim C2, as stated: the timer callback deletes only when the idle time exceeds the
  15 minutes. The callback compares with \<open>>=\<close>: the timer armed at creation, firing on
  time, finds an idle time of exactly 15 minutes and deletes the session, which
  \<open>getSession\<close> at that same moment would still return.
\<close>

theorem timer_deletes_at_timeout_counterexample:
  "sessions storeAfterCreate ''s1'' = Some freshSession \<and>
   \<not> (900000 - lastActivity freshSession > SESSION_TIMEOUT) \<and>
   sessions (fireTimer 900000 0 storeAfterCreate) ''s1'' = None \<and>
   fst (getSession 900000 ''s1'' storeAfterCreate) \<noteq> None"
  by code_simp

text \<open>
  Claim C2, amended. The callback deletes the session exactly when the idle time,
  measured against the current \<open>lastActivity\<close> at the moment it runs, is at least the
  15 minutes. When the idle time is below that, the callback leaves the session as it
  is and arms a new timer, and no timer that fires then removes the session; so after
  \<open>updateSession\<close> has refreshed \<open>lastActivity\<close>, a timer firing less than 15 minutes
  later does not delete the session.
\<close>

theorem timer_rechecks_before_delete:
  "sessions st sid = Some s \<longrightarrow>
     (sessions (cleanupCallback now sid st) sid = None \<longleftrightarrow> now - lastActivity s \<ge> SESSION_TIMEOUT) \<and>
     (now - lastActivity s < SESSION_TIMEOUT \<longrightarrow>
        sessions (cleanupCallback now sid st) sid = Some s \<and>
        (\<exists>ts h. timers (cleanupCallback now sid st) =
                  ts @ [\<lparr>handle = h, timerSession = sid, due = now + SESSION_TIMEOUT\<rparr>]) \<and>
        sessions (fireTimer now h st) sid = Some s) \<and>
     (updLastActivity u = None \<and> now - refreshedAt < SESSION_TIMEOUT \<longrightarrow>
        fst (updateSession refreshedAt sid u st) = True \<and>
        sessions (fireTimer now h (snd (updateSession refreshedAt sid u st))) sid \<noteq> None)"
proof (intro impI conjI)
  assume s: "sessions st sid = Some s"
  show "sessions (cleanupCallback now sid st) sid = None \<longleftrightarrow> now - lastActivity s \<ge> SESSION_TIMEOUT"
    using s by (simp add: sessions_cleanupCallback)
  {
    assume f: "now - lastActivity s < SESSION_TIMEOUT"
    show "sessions (cleanupCallback now sid st) sid = Some s"
      using s f by (simp add: sessions_cleanupCallback)
    show "\<exists>ts h. timers (cleanupCallback now sid st) =
                  ts @ [\<lparr>handle = h, timerSession = sid, due = now + SESSION_TIMEOUT\<rparr>]"
      using s f by (rule timers_cleanupCallback_fresh)
    show "sessions (fireTimer now h st) sid = Some s"
      using s f by (rule fireTimer_keeps_fresh)
  }
  {
    assume a: "updLastActivity u = None \<and> now - refreshedAt < SESSION_TIMEOUT"
    from updateSession_present [OF s, of refreshedAt u] a obtain s' where
      t: "fst (updateSession refreshedAt sid u st) = True" and
      p: "sessions (snd (updateSession refreshedAt sid u st)) sid = Some s'" and
      l: "lastActivity s' = refreshedAt"
      by auto
    show "fst (updateSession refreshedAt sid u st) = True" by (rule t)
    from a l have "now - lastActivity s' < SESSION_TIMEOUT" by simp
    from fireTimer_keeps_fresh [OF p this, of h]
    show "sessions (fireTimer now h (snd (updateSession refreshedAt sid u st))) sid \<noteq> None" by simp
  }
qed

theorem timer_rechecks_before_delete_witness:
  "sessions storeAfterCreate ''s1'' = Some freshSession \<and>
   500000 - lastActivity freshSession < SESSION_TIMEOUT \<and>
   sessions (cleanupCallback 500000 ''s1'' storeAfterCreate) ''s1'' = Some freshSession \<and>
   sessions (fireTimer 500000 0 storeAfterCreate) ''s1'' = Some freshSession \<and>
   1000000 - lastActivity freshSession \<ge> SESSION_TIMEOUT \<and>
   sessions (cleanupCallback 1000000 ''s1'' storeAfterCreate) ''s1'' = None \<and>
   updLastActivity noUpdates = None \<and> 1000000 - 600000 < SESSION_TIMEOUT \<and>
   fst (updateSession 600000 ''s1'' noUpdates storeAfterCreate) = True \<and>
   sessions (fireTimer 1000000 0 (snd (updateSession 600000 ''s1'' noUpdates storeAfterCreate))) ''s1'' \<noteq> None"
proof -
  have s: "sessions storeAfterCreate ''s1'' = Some freshSession" by code_simp
  have f: "500000 - lastActivity freshSession < SESSION_TIMEOUT" by code_simp
  have e: "1000000 - lastActivity freshSession \<ge> SESSION_TIMEOUT" by code_simp
  have u: "updLastActivity noUpdates = None" by (simp add: noUpdates_def)
  have r: "(1000000::int) - 600000 < SESSION_TIMEOUT" by (simp add: SESSION_TIMEOUT_def)
  from timer_rechecks_before_delete [where st = storeAfterCreate and sid = "''s1''" and s = freshSession
      and now = 500000 and h = 0 and u = noUpdates and refreshedAt = 0] s f
  have 1: "sessions (cleanupCallback 500000 ''s1'' storeAfterCreate) ''s1'' = Some freshSession"
    "sessions (fireTimer 500000 0 storeAfterCreate) ''s1'' = Some freshSession"
    by blast+
  from timer_rechecks_before_delete [where st = storeAfterCreate and sid = "''s1''" and s = freshSession
      and now = 1000000 and h = 0 and u = noUpdates and refreshedAt = 600000] s e u r
  have 2: "sessions (cleanupCallback 1000000 ''s1'' storeAfterCreate) ''s1'' = None"
    "fst (updateSession 600000 ''s1'' noUpdates storeAfterCreate) = True"
    "sessions (fireTimer 1000000 0 (snd (updateSession 600000 ''s1'' noUpdates storeAfterCreate))) ''s1'' \<noteq> None"
    by blast+
  from s f e u r 1 2 show ?thesis by blast
qed

text \<open>
  Claim C10. \<open>updateSession\<close> returns true whenever the identifier is in the session
  map (and false, changing nothing, otherwise), with no check of the idle time: the
  stored session gets the \<open>lastActivity\<close> of the update, or the current time when the
  update carries none, also when the idle time is past the 15 minutes, where
  \<open>getSession\<close> returns nothing and removes the session; after such an update
  \<open>getSession\<close> finds the session again.
\<close>

theorem updateSession_revives:
  "(sessions st sid = None \<longrightarrow> updateSession now sid u st = (False, st)) \<and>
   (sessions st sid = Some s \<longrightarrow>
      fst (updateSession now sid u st) = True \<and>
      (\<exists>s'. sessions (snd (updateSession now sid u st)) sid = Some s' \<and>
            lastActivity s' = (case updLastActivity u of Some t \<Rightarrow> t | None \<Rightarrow> now)) \<and>
      (now - lastActivity s > SESSION_TIMEOUT \<longrightarrow>
         fst (getSession now sid st) = None \<and> sessions (snd (getSession now sid st)) sid = None) \<and>
      (updLastActivity u = None \<longrightarrow>
         fst (getSession now sid (snd (updateSession now sid u st))) \<noteq> None))"
proof (intro conjI impI)
  assume "sessions st sid = None"
  then show "updateSession now sid u st = (False, st)" by (simp add: updateSession_def)
next
  assume s: "sessions st sid = Some s"
  from updateSession_present [OF s, of now u]
  show "fst (updateSession now sid u st) = True"
    and "\<exists>s'. sessions (snd (updateSession now sid u st)) sid = Some s' \<and>
            lastActivity s' = (case updLastActivity u of Some t \<Rightarrow> t | None \<Rightarrow> now)"
    by simp_all
  {
    assume "now - lastActivity s > SESSION_TIMEOUT"
    from getSession_expired [OF s this]
    show "fst (getSession now sid st) = None" and "sessions (snd (getSession now sid st)) sid = None"
      by simp_all
  }
  {
    assume n: "updLastActivity u = None"
    from updateSession_present [OF s, of now u] n obtain s' where
      p: "sessions (snd (updateSession now sid u st)) sid = Some s'" and l: "lastActivity s' = now"
      by auto
    have "\<not> now - lastActivity s' > SESSION_TIMEOUT" by (simp add: l SESSION_TIMEOUT_def)
    from getSession_fresh [OF p this]
    show "fst (getSession now sid (snd (updateSession now sid u st))) \<noteq> None" by simp
  }
qed

theorem updateSession_revives_witness:
  "sessions storeAfterCreate ''s1'' = Some freshSession \<and>
   1000000 - lastActivity freshSession > SESSION_TIMEOUT \<and>
   updLastActivity noUpdates = None \<and>
   fst (updateSession 1000000 ''s1'' noUpdates storeAfterCreate) = True \<and>
   fst (getSession 1000000 ''s1'' storeAfterCreate) = None \<and>
   fst (getSession 1000000 ''s1'' (snd (updateSession 1000000 ''s1'' noUpdates storeAfterCreate))) \<noteq> None \<and>
   sessions storeAfterCreate ''s2'' = None \<and>
   updateSession 1000000 ''s2'' noUpdates storeAfterCreate = (False, storeAfterCreate)"
proof -
  have s: "sessions storeAfterCreate ''s1'' = Some freshSession" by code_simp
  have e: "1000000 - lastActivity freshSession > SESSION_TIMEOUT" by code_simp
  have u: "updLastActivity noUpdates = None" by (simp add: noUpdates_def)
  have n: "sessions storeAfterCreate ''s2'' = None" by code_simp
  from updateSession_revives [where st = storeAfterCreate and sid = "''s1''" and s = freshSession
      and now = 1000000 and u = noUpdates] s e u
  have 1: "fst (updateSession 1000000 ''s1'' noUpdates storeAfterCreate) = True"
    "fst (getSession 1000000 ''s1'' storeAfterCreate) = None"
    "fst (getSession 1000000 ''s1'' (snd (updateSession 1000000 ''s1'' noUpdates storeAfterCreate))) \<noteq> None"
    by blast+
  from updateSession_revives [where st = storeAfterCreate and sid = "''s2''" and s = freshSession
      and now = 1000000 and u = noUpdates] n
  have 2: "updateSession 1000000 ''s2'' noUpdates storeAfterCreate = (False, storeAfterCreate)"
    by blast
  from s e u n 1 2 show ?thesis by blast
qed

end
